theory Spec2Isabelle
  imports Complex_Main "HOL-Library.Word" "HOL-Library.Multiset"
begin

section \<open>The RtAudio engine driver of Carla (CarlaEngineRtAudio.cpp)\<close>

text \<open>
  A shallow embedding of the class \<open>CarlaEngineRtAudio\<close>: the driver's fields and the
  fields of the engine's protected data (\<open>pData\<close>) that the driver reads and writes form
  one record, and each member function is a function from the state to the new state.
  Native calls (RtAudio, RtMidi), engine callbacks and diagnostics are appended to a
  trace, in the order the source issues them.
\<close>

subsection \<open>Data\<close>

type_synonym u8 = "8 word"
type_synonym u32 = "32 word"
type_synonym u64 = "64 word"

text \<open>The address of a native RtMidi object (\<open>RtMidi*\<close>).\<close>
type_synonym handle = nat

text \<open>
  Constants of the engine's headers that this source unit uses and does not define:
  \<open>EngineMidiEvent::kDataSize\<close>, \<open>kMaxEngineEventInternalCount\<close> and \<open>STR_MAX\<close>.
  Every function that depends on one of them takes the record as its first argument.
\<close>
record header_consts =
  kDataSize :: nat
  kMaxEngineEventInternalCount :: nat
  STR_MAX :: nat

text \<open>\<open>struct MidiPort { RtMidi* rtmidi; char name[STR_MAX+1]; }\<close>\<close>
record MidiPort =
  rtmidi :: handle
  name :: string

text \<open>\<open>struct RtMidiEvent { uint64_t time; uint8_t size; uint8_t data[kDataSize]; }\<close>\<close>
record RtMidiEvent =
  midi_time :: u64
  midi_size :: u8
  midi_data :: "u8 list"

text \<open>
  An entry of \<open>pData->events.in\<close>. The driver writes \<open>time\<close> and hands size and bytes to
  \<open>fillFromMidiData\<close>, which belongs to the engine; the entry keeps what was handed over.
  The zeroed entry is what \<open>carla_zeroStruct\<close> leaves.
\<close>
record EngineEvent =
  ee_time :: u32
  ee_size :: u8
  ee_data :: "u8 list"

definition zeroEngineEvent :: EngineEvent where
  "zeroEngineEvent = \<lparr>ee_time = 0, ee_size = 0, ee_data = []\<rparr>"

text \<open>
  The group and port identifiers of the rack graph are enumerations of the engine's
  headers; their numeric values are not part of this source unit. A port of a connection
  is either one of the engine's own rack ports or the index of a hardware port.
\<close>
datatype rack_group =
  RACK_GRAPH_GROUP_CARLA
  | RACK_GRAPH_GROUP_AUDIO_IN
  | RACK_GRAPH_GROUP_AUDIO_OUT
  | RACK_GRAPH_GROUP_MIDI_IN
  | RACK_GRAPH_GROUP_MIDI_OUT

datatype carla_port =
  RACK_GRAPH_CARLA_PORT_AUDIO_IN1
  | RACK_GRAPH_CARLA_PORT_AUDIO_IN2
  | RACK_GRAPH_CARLA_PORT_AUDIO_OUT1
  | RACK_GRAPH_CARLA_PORT_AUDIO_OUT2
  | RACK_GRAPH_CARLA_PORT_MIDI_IN
  | RACK_GRAPH_CARLA_PORT_MIDI_OUT

datatype port_ref = CarlaPort carla_port | HwPort u32

text \<open>\<open>ConnectionToId::setData(id, groupA, portA, groupB, portB)\<close>\<close>
record ConnectionToId =
  conn_id :: u32
  groupA :: rack_group
  portA :: port_ref
  groupB :: rack_group
  portB :: port_ref

text \<open>\<open>PortNameToId::setData(group, port, name, fullName)\<close>\<close>
record PortNameToId =
  pn_group :: rack_group
  pn_port :: u32
  pn_name :: string
  pn_fullName :: string

text \<open>\<open>RtAudio::DeviceInfo\<close>, the fields the driver reads.\<close>
record DeviceInfo =
  probed :: bool
  outputChannels :: u32
  inputChannels :: u32
  dev_name :: string

datatype rt_api =
  UNSPECIFIED | LINUX_ALSA | LINUX_PULSE | LINUX_OSS | UNIX_JACK
  | MACOSX_CORE | WINDOWS_ASIO | WINDOWS_DS | RTAUDIO_DUMMY

text \<open>An exception that leaves a member function (\<open>RtError\<close> with its message).\<close>
datatype exn = RtError string

text \<open>A write past the end of an array: undefined behaviour in the source.\<close>
datatype fault = OutOfBounds

datatype process_mode =
  ENGINE_PROCESS_MODE_SINGLE_CLIENT
  | ENGINE_PROCESS_MODE_MULTIPLE_CLIENTS
  | ENGINE_PROCESS_MODE_CONTINUOUS_RACK
  | ENGINE_PROCESS_MODE_PATCHBAY
  | ENGINE_PROCESS_MODE_BRIDGE

text \<open>What the driver does to the world outside its own fields, in order.\<close>
datatype effect =
  StopStream
  | CloseStream
  | StartStream
  | AudioCreate u32
  | BaseInit string
  | BaseClose
  | NewRtMidiIn handle
  | NewRtMidiOut handle
  | SetCallback handle
  | CancelCallback handle
  | OpenPort handle u32
  | DeleteRtMidi handle
  | RunPendingRtEvents
  | Stderr_MidiEventInTheFuture
  | SafeAssertFailed
  | ProcessRackFull u32
  | ClientAdded rack_group
  | PortAdded rack_group port_ref
  | ConnectionAdded ConnectionToId

record engine =
  bufferSize :: u32
  sampleRate :: real
  audio_isReady :: bool
  audio_inCount :: u32
  audio_outCount :: u32
  graph_isRack :: bool
  timeInfo_frame :: u64
  events_in :: "EngineEvent list"
  lastError :: string
  opt_processMode :: process_mode
  opt_audioDevice :: string
  opt_audioBufferSize :: u32
  opt_audioSampleRate :: u32
  fAudioInCount :: u32
  fAudioOutCount :: u32
  fLastEventTime :: u64
  fDeviceName :: string
  fUsedMidiPorts :: "PortNameToId list"
  fMidiIns :: "MidiPort list"
  fMidiOuts :: "MidiPort list"
  data :: "RtMidiEvent list"
  dataPending :: "RtMidiEvent list"
  connectedIn1 :: "u32 list"
  connectedIn2 :: "u32 list"
  connectedOut1 :: "u32 list"
  connectedOut2 :: "u32 list"
  midi_ins :: "PortNameToId list"
  midi_outs :: "PortNameToId list"
  connections_lastId :: u32
  connections_list :: "ConnectionToId list"
  trace :: "effect list"

subsection \<open>The world outside the driver\<close>

text \<open>
  What the native libraries, the engine's base class and the scheduler answer when the
  driver asks. A member function is run against one such record.
  \<^item> \<open>openStream\<close> gets the requested sample rate and buffer size and either throws
    (\<open>Inl\<close>, the message) or writes the negotiated buffer size back (\<open>Inr\<close>).
  \<^item> \<open>startStream\<close>, \<open>stopStream\<close> and \<open>openPort\<close> give the message of the exception
    they throw, if any.
  \<^item> \<open>baseClose\<close> is the result of \<open>CarlaEngine::close()\<close>.
  \<^item> \<open>connections_clear\<close> is what \<open>rack->connections.clear()\<close> leaves in \<open>lastId\<close>,
    from the old value; \<open>getPortId\<close> is \<open>rack->midi.getPortId\<close>. Both belong to the
    engine's graph code.
  \<^item> \<open>tryLock\<close> tells whether the audio thread gets the queue's mutex;
    \<open>processRackFull\<close> gives the output samples the rack writes, from the input buffer,
    the channel counts, the cleared output buffer, the frame count and the event array.
  \<^item> \<open>roundDouble\<close> is the rounding of the platform's \<open>double\<close> arithmetic: every
    operation on doubles yields its exact result rounded by it (IEEE 754 binary64, to
    nearest, ties to even). A finite double is the real number it denotes; infinities and
    NaN are not modelled.
\<close>
record world =
  getCurrentApi :: rt_api
  getDeviceCount :: u32
  getDeviceInfo :: "u32 \<Rightarrow> DeviceInfo"
  getDefaultInputDevice :: u32
  getDefaultOutputDevice :: u32
  openStream :: "u32 \<Rightarrow> u32 \<Rightarrow> string + u32"
  getStreamSampleRate :: real
  startStream :: "string option"
  isStreamOpen :: bool
  isStreamRunning :: bool
  stopStream :: "string option"
  baseClose :: bool
  newRtMidi :: handle
  midiInPortNames :: "string list"
  midiOutPortNames :: "string list"
  openPort :: "string option"
  connections_clear :: "u32 \<Rightarrow> u32"
  getPortId :: "bool \<Rightarrow> PortNameToId list \<Rightarrow> string \<Rightarrow> u32"
  tryLock :: bool
  processRackFull ::
    "real list option \<Rightarrow> u32 \<Rightarrow> real list \<Rightarrow> u32 \<Rightarrow> u32 \<Rightarrow> EngineEvent list \<Rightarrow> real list"
  roundDouble :: "real \<Rightarrow> real"

definition emit :: "effect list \<Rightarrow> engine \<Rightarrow> engine" where
  "emit es s = s\<lparr>trace := trace s @ es\<rparr>"

definition setLastError :: "string \<Rightarrow> engine \<Rightarrow> engine" where
  "setLastError e s = s\<lparr>lastError := e\<rparr>"

definition runPendingRtEvents :: "engine \<Rightarrow> engine" where
  "runPendingRtEvents s = emit [RunPendingRtEvents] s"

subsection \<open>MIDI ingestion: \<open>handleMidiCallback\<close>\<close>

text \<open>
  The literal \<open>0.95\<close> of the source is the double nearest to 0.95, which is
  \<open>4278419646001971 / 2^52\<close>; the literal \<open>0.0\<close> is 0.
\<close>
definition double_0_95 :: real where
  "double_0_95 = 4278419646001971 / 4503599627370496"

text \<open>
  Lines 711 to 716: the time stamp is halved (a double division) and then limited, first
  from above and then from below.
\<close>
definition normalizeTimeStamp :: "world \<Rightarrow> real \<Rightarrow> real" where
  "normalizeTimeStamp W timeStamp =
     (let t = roundDouble W (timeStamp / 2)
      in if t > double_0_95 then double_0_95 else if t < 0.0 then 0.0 else t)"

text \<open>
  The specification's reading of the same step: the halved value is raised to the lower
  bound if it is below it and lowered to the upper bound if it is above it.
\<close>
definition clamp_spec :: "real \<Rightarrow> real \<Rightarrow> real \<Rightarrow> real" where
  "clamp_spec x lo hi = (if x < lo then lo else if x > hi then hi else x)"

text \<open>
  Line 719: \<open>pData->timeInfo.frame + uint64_t(timeStamp * (double)pData->bufferSize)\<close>.
  The buffer size converts to a double exactly, the product is a double product, the
  conversion to \<open>uint64_t\<close> truncates a non-negative value, and the sum wraps at 64 bits.
\<close>
definition computedTime :: "world \<Rightarrow> engine \<Rightarrow> real \<Rightarrow> u64" where
  "computedTime W s timeStamp =
     timeInfo_frame s
       + word_of_nat
           (nat \<lfloor>roundDouble W (normalizeTimeStamp W timeStamp * real (unat (bufferSize s)))\<rfloor>)"

text \<open>Lines 701 to 735.\<close>
definition handleMidiCallback ::
  "header_consts \<Rightarrow> world \<Rightarrow> real \<Rightarrow> u8 list \<Rightarrow> engine \<Rightarrow> engine" where
  "handleMidiCallback K W timeStamp message s =
     (if \<not> audio_isReady s then s
      else let messageSize = length message in
        if messageSize = 0 \<or> messageSize > kDataSize K then s
        else
          let t = computedTime W s timeStamp;
              (t', last') = (if t < fLastEventTime s then (fLastEventTime s, fLastEventTime s)
                             else (t, t));
              midiEvent = \<lparr>midi_time = t', midi_size = word_of_nat messageSize,
                           midi_data = message @ replicate (kDataSize K - messageSize) 0\<rparr>
          in s\<lparr>fLastEventTime := last', dataPending := dataPending s @ [midiEvent]\<rparr>)"

text \<open>
  A run of the ingestion path: the callback is invoked once per entry. Between two
  invocations the audio thread may have advanced the frame counter, so each call carries
  the frame counter it observes.
\<close>
fun midiCallbacks ::
  "header_consts \<Rightarrow> world \<Rightarrow> engine \<Rightarrow> (u64 \<times> real \<times> u8 list) list \<Rightarrow> engine" where
  "midiCallbacks K W s [] = s"
| "midiCallbacks K W s ((frame, timeStamp, message) # calls) =
     midiCallbacks K W
       (handleMidiCallback K W timeStamp message (s\<lparr>timeInfo_frame := frame\<rparr>)) calls"

subsection \<open>The audio cycle: \<open>handleAudioProcessCallback\<close>\<close>

text \<open>
  Lines 657 to 667: the time written into the engine event, from the frame counter, the
  frame count and the MIDI event's time. The comparison \<open>frame + nframes\<close> is a 64-bit
  sum; the second branch is a 32-bit sum of the truncated frame counter.
\<close>
definition engineEventTime :: "u64 \<Rightarrow> u32 \<Rightarrow> u64 \<Rightarrow> u32" where
  "engineEventTime frame nframes t =
     (if t < frame then 0
      else if t \<ge> frame + ucast nframes then ucast frame + nframes - 1
      else ucast (t - frame))"

text \<open>Whether the second branch is taken, the one that prints the diagnostic.\<close>
definition inTheFuture :: "u64 \<Rightarrow> u32 \<Rightarrow> u64 \<Rightarrow> bool" where
  "inTheFuture frame nframes t = (\<not> t < frame \<and> t \<ge> frame + ucast nframes)"

text \<open>Lines 655 to 669: the engine event written for one MIDI event.\<close>
definition toEngineEvent :: "u64 \<Rightarrow> u32 \<Rightarrow> RtMidiEvent \<Rightarrow> EngineEvent" where
  "toEngineEvent frame nframes midiEvent =
     \<lparr>ee_time = engineEventTime frame nframes (midi_time midiEvent),
      ee_size = midi_size midiEvent, ee_data = midi_data midiEvent\<rparr>"

text \<open>The diagnostics that a list of MIDI events prints, one for each event of the second branch.\<close>
definition futureDiagnostics :: "u64 \<Rightarrow> u32 \<Rightarrow> RtMidiEvent list \<Rightarrow> effect list" where
  "futureDiagnostics frame nframes ms =
     concat (map (\<lambda>m. if inTheFuture frame nframes (midi_time m)
                       then [Stderr_MidiEventInTheFuture] else []) ms)"

text \<open>
  Lines 652 to 673, the loop over \<open>fMidiInEvents.data\<close>. It carries \<open>engineEventIndex\<close>,
  the event array and the diagnostics printed so far, and stops at the end of the list or
  at the \<open>break\<close>. A write at an index the array does not have is a fault.
\<close>
fun translateEvents ::
  "header_consts \<Rightarrow> u64 \<Rightarrow> u32 \<Rightarrow> RtMidiEvent list \<Rightarrow> u32 \<Rightarrow> EngineEvent list \<Rightarrow> effect list
     \<Rightarrow> fault + (EngineEvent list \<times> effect list)" where
  "translateEvents K frame nframes [] engineEventIndex evs tr = Inr (evs, tr)"
| "translateEvents K frame nframes (midiEvent # rest) engineEventIndex evs tr =
     (if unat engineEventIndex \<ge> length evs then Inl OutOfBounds
      else
        let tr' = (if inTheFuture frame nframes (midi_time midiEvent)
                   then tr @ [Stderr_MidiEventInTheFuture] else tr);
            engineEvent = toEngineEvent frame nframes midiEvent;
            evs' = evs[unat engineEventIndex := engineEvent];
            engineEventIndex' = engineEventIndex + 1
        in if unat engineEventIndex' \<ge> kMaxEngineEventInternalCount K then Inr (evs', tr')
           else translateEvents K frame nframes rest engineEventIndex' evs' tr')"

text \<open>
  Lines 647 to 677: with the mutex, the pending partition is spliced to the end of the
  active one, the active one is translated and then cleared. Without it nothing moves.
\<close>
definition drainMidiInEvents :: "header_consts \<Rightarrow> world \<Rightarrow> u32 \<Rightarrow> engine \<Rightarrow> fault + engine" where
  "drainMidiInEvents K W nframes s =
     (if tryLock W then
        let spliced = data s @ dataPending s
        in (case translateEvents K (timeInfo_frame s) nframes spliced 0 (events_in s) [] of
              Inl f \<Rightarrow> Inl f
            | Inr (evs, tr) \<Rightarrow>
                Inr (emit tr (s\<lparr>events_in := evs, data := [], dataPending := []\<rparr>)))
      else Inr s)"

text \<open>
  Lines 617 to 699. The output buffer is \<open>None\<close> for a null pointer. \<open>FLOAT_CLEAR\<close> writes
  \<open>nframes*fAudioOutCount\<close> zeros (a 32-bit product); a buffer shorter than that is a fault.
  \<open>carla_zeroStruct\<close> is given the array of \<open>kMaxEngineEventInternalCount\<close> entries that the
  engine allocates.
\<close>
definition handleAudioProcessCallback ::
  "header_consts \<Rightarrow> world \<Rightarrow> real list option \<Rightarrow> real list option \<Rightarrow> u32 \<Rightarrow> engine
     \<Rightarrow> fault + (engine \<times> real list option)" where
  "handleAudioProcessCallback K W outputBuffer inputBuffer nframes s =
     (case outputBuffer of
        None \<Rightarrow> Inr (runPendingRtEvents (emit [SafeAssertFailed] s), None)
      | Some outs \<Rightarrow>
          if bufferSize s \<noteq> nframes
          then Inr (runPendingRtEvents (emit [SafeAssertFailed] s), Some outs)
          else if \<not> audio_isReady s then Inr (runPendingRtEvents s, Some outs)
          else
            let n = unat (nframes * fAudioOutCount s) in
            if n > length outs then Inl OutOfBounds
            else
              let cleared = replicate n 0 @ drop n outs;
                  s1 = s\<lparr>events_in := replicate (kMaxEngineEventInternalCount K) zeroEngineEvent\<rparr>
              in (case drainMidiInEvents K W nframes s1 of
                    Inl f \<Rightarrow> Inl f
                  | Inr s2 \<Rightarrow>
                      (if graph_isRack s2
                       then Inr (runPendingRtEvents (emit [ProcessRackFull nframes] s2),
                                 Some (processRackFull W inputBuffer (fAudioInCount s2) cleared
                                         (fAudioOutCount s2) nframes (events_in s2)))
                       else Inr (runPendingRtEvents s2, Some cleared))))"

subsection \<open>Closing: \<open>close\<close>\<close>

text \<open>Lines 346 to 361: what the two loops over the port lists do to the native objects.\<close>
fun destroyMidiIns :: "MidiPort list \<Rightarrow> effect list" where
  "destroyMidiIns [] = []"
| "destroyMidiIns (port # rest) =
     CancelCallback (rtmidi port) # DeleteRtMidi (rtmidi port) # destroyMidiIns rest"

fun destroyMidiOuts :: "MidiPort list \<Rightarrow> effect list" where
  "destroyMidiOuts [] = []"
| "destroyMidiOuts (port # rest) = DeleteRtMidi (rtmidi port) # destroyMidiOuts rest"

text \<open>
  Lines 326 to 344: stop and close the stream; the result is the state and \<open>hasError\<close>.
\<close>
definition closeAudioStream :: "world \<Rightarrow> bool \<Rightarrow> engine \<Rightarrow> engine \<times> bool" where
  "closeAudioStream W hasError s =
     (if isStreamOpen W then
        let (s', hasError') =
              (if isStreamRunning W then
                 (case stopStream W of
                    None \<Rightarrow> (emit [StopStream] s, hasError)
                  | Some e \<Rightarrow>
                      if \<not> hasError then (setLastError e (emit [StopStream] s), True)
                      else (emit [StopStream] s, hasError))
               else (s, hasError))
        in (emit [CloseStream] s', hasError')
      else (s, hasError))"

text \<open>Lines 317 to 376.\<close>
definition close :: "world \<Rightarrow> engine \<Rightarrow> bool \<times> engine" where
  "close W s =
     (let s0 = (if fAudioOutCount s \<noteq> 0 then s else emit [SafeAssertFailed] s);
          s1 = emit [BaseClose] (s0\<lparr>audio_isReady := False\<rparr>);
          (s2, hasError) = closeAudioStream W (\<not> baseClose W) s1;
          s3 = emit (destroyMidiIns (fMidiIns s2) @ destroyMidiOuts (fMidiOuts s2)) s2
      in (\<not> hasError,
          s3\<lparr>fAudioInCount := 0, fAudioOutCount := 0, fLastEventTime := 0,
             fDeviceName := [], fUsedMidiPorts := [], data := [], dataPending := [],
             fMidiIns := [], fMidiOuts := []\<rparr>))"

subsection \<open>The patchbay: \<open>patchbayRefresh\<close> and \<open>patchbayRefreshRack\<close>\<close>

text \<open>
  Lines 424 to 508: the groups and ports are announced and the visible MIDI ports are
  appended to \<open>rack->midi.ins\<close> and \<open>rack->midi.outs\<close>. The callbacks keep the group and
  the port; icons, flags and display names are left out. \<open>snprintf\<close> with size \<open>STR_MAX\<close>
  keeps at most \<open>STR_MAX - 1\<close> characters.
\<close>
definition hwPorts :: "rack_group \<Rightarrow> nat \<Rightarrow> effect list" where
  "hwPorts g portCount = map (\<lambda>i. PortAdded g (HwPort (word_of_nat i))) [0..<portCount]"

definition midiPortEntries :: "header_consts \<Rightarrow> rack_group \<Rightarrow> string \<Rightarrow> string list \<Rightarrow> PortNameToId list" where
  "midiPortEntries K g prefix names =
     map (\<lambda>(i, portName).
            \<lparr>pn_group = g, pn_port = word_of_nat i, pn_name = portName,
             pn_fullName = take (STR_MAX K - 1) (prefix @ portName)\<rparr>)
         (enumerate 0 names)"

definition announcePorts :: "header_consts \<Rightarrow> world \<Rightarrow> engine \<Rightarrow> engine" where
  "announcePorts K W s =
     (let main = [ClientAdded RACK_GRAPH_GROUP_CARLA,
                  PortAdded RACK_GRAPH_GROUP_CARLA (CarlaPort RACK_GRAPH_CARLA_PORT_AUDIO_IN1),
                  PortAdded RACK_GRAPH_GROUP_CARLA (CarlaPort RACK_GRAPH_CARLA_PORT_AUDIO_IN2),
                  PortAdded RACK_GRAPH_GROUP_CARLA (CarlaPort RACK_GRAPH_CARLA_PORT_AUDIO_OUT1),
                  PortAdded RACK_GRAPH_GROUP_CARLA (CarlaPort RACK_GRAPH_CARLA_PORT_AUDIO_OUT2),
                  PortAdded RACK_GRAPH_GROUP_CARLA (CarlaPort RACK_GRAPH_CARLA_PORT_MIDI_IN),
                  PortAdded RACK_GRAPH_GROUP_CARLA (CarlaPort RACK_GRAPH_CARLA_PORT_MIDI_OUT)];
          audioIn = ClientAdded RACK_GRAPH_GROUP_AUDIO_IN
                      # hwPorts RACK_GRAPH_GROUP_AUDIO_IN (unat (fAudioInCount s));
          audioOut = ClientAdded RACK_GRAPH_GROUP_AUDIO_OUT
                      # hwPorts RACK_GRAPH_GROUP_AUDIO_OUT (unat (fAudioOutCount s));
          midiIn = ClientAdded RACK_GRAPH_GROUP_MIDI_IN
                      # hwPorts RACK_GRAPH_GROUP_MIDI_IN (length (midiInPortNames W));
          midiOut = ClientAdded RACK_GRAPH_GROUP_MIDI_OUT
                      # hwPorts RACK_GRAPH_GROUP_MIDI_OUT (length (midiOutPortNames W))
      in emit (main @ audioIn @ audioOut @ midiIn @ midiOut)
           (s\<lparr>midi_ins := midi_ins s
                  @ midiPortEntries K RACK_GRAPH_GROUP_MIDI_IN ''Readable MIDI ports:'' (midiInPortNames W),
               midi_outs := midi_outs s
                  @ midiPortEntries K RACK_GRAPH_GROUP_MIDI_OUT ''Writable MIDI ports:'' (midiOutPortNames W)\<rparr>))"

text \<open>
  The six connection loops of lines 513 to 607 have one body: skip a port that fails the
  assertion, otherwise take \<open>++lastId\<close> as the identifier, announce the connection and
  append it to the list. \<open>ok\<close> is the assertion, \<open>mk\<close> the call of \<open>setData\<close>.
\<close>
fun addConnections ::
  "(u32 \<Rightarrow> bool) \<Rightarrow> (u32 \<Rightarrow> u32 \<Rightarrow> ConnectionToId) \<Rightarrow> u32 list \<Rightarrow> engine \<Rightarrow> engine" where
  "addConnections ok mk [] s = s"
| "addConnections ok mk (portId # rest) s =
     (if \<not> ok portId then addConnections ok mk rest (emit [SafeAssertFailed] s)
      else
        let newId = connections_lastId s + 1;
            connectionToId = mk newId portId
        in addConnections ok mk rest
             (emit [ConnectionAdded connectionToId]
                (s\<lparr>connections_lastId := newId,
                   connections_list := connections_list s @ [connectionToId]\<rparr>)))"

definition toCarla :: "rack_group \<Rightarrow> carla_port \<Rightarrow> u32 \<Rightarrow> u32 \<Rightarrow> ConnectionToId" where
  "toCarla g cp newId portId =
     \<lparr>conn_id = newId, groupA = g, portA = HwPort portId,
      groupB = RACK_GRAPH_GROUP_CARLA, portB = CarlaPort cp\<rparr>"

definition fromCarla :: "carla_port \<Rightarrow> rack_group \<Rightarrow> u32 \<Rightarrow> u32 \<Rightarrow> ConnectionToId" where
  "fromCarla cp g newId portId =
     \<lparr>conn_id = newId, groupA = RACK_GRAPH_GROUP_CARLA, portA = CarlaPort cp,
      groupB = g, portB = HwPort portId\<rparr>"

definition midiInPortIds :: "world \<Rightarrow> engine \<Rightarrow> u32 list" where
  "midiInPortIds W s = map (\<lambda>midiPort. getPortId W True (midi_ins s) (name midiPort)) (fMidiIns s)"

definition midiOutPortIds :: "world \<Rightarrow> engine \<Rightarrow> u32 list" where
  "midiOutPortIds W s = map (\<lambda>midiPort. getPortId W False (midi_outs s) (name midiPort)) (fMidiOuts s)"

text \<open>The connections announced by a trace, in the order of their callbacks.\<close>
fun connectionsAnnounced :: "effect list \<Rightarrow> ConnectionToId list" where
  "connectionsAnnounced [] = []"
| "connectionsAnnounced (ConnectionAdded c # es) = c # connectionsAnnounced es"
| "connectionsAnnounced (e # es) = connectionsAnnounced es"

text \<open>Lines 415 to 608.\<close>
definition patchbayRefreshRack :: "header_consts \<Rightarrow> world \<Rightarrow> engine \<Rightarrow> engine" where
  "patchbayRefreshRack K W s =
     (let s0 = s\<lparr>connections_lastId := connections_clear W (connections_lastId s),
                 connections_list := []\<rparr>;
          s1 = announcePorts K W s0;
          s2 = addConnections (\<lambda>portId. portId < fAudioInCount s1)
                 (toCarla RACK_GRAPH_GROUP_AUDIO_IN RACK_GRAPH_CARLA_PORT_AUDIO_IN1)
                 (connectedIn1 s1) s1;
          s3 = addConnections (\<lambda>portId. portId < fAudioInCount s1)
                 (toCarla RACK_GRAPH_GROUP_AUDIO_IN RACK_GRAPH_CARLA_PORT_AUDIO_IN2)
                 (connectedIn2 s1) s2;
          s4 = addConnections (\<lambda>portId. portId < fAudioOutCount s1)
                 (fromCarla RACK_GRAPH_CARLA_PORT_AUDIO_OUT1 RACK_GRAPH_GROUP_AUDIO_OUT)
                 (connectedOut1 s1) s3;
          s5 = addConnections (\<lambda>portId. portId < fAudioOutCount s1)
                 (fromCarla RACK_GRAPH_CARLA_PORT_AUDIO_OUT2 RACK_GRAPH_GROUP_AUDIO_OUT)
                 (connectedOut2 s1) s4;
          s6 = addConnections (\<lambda>portId. unat portId < length (midi_ins s1))
                 (toCarla RACK_GRAPH_GROUP_MIDI_IN RACK_GRAPH_CARLA_PORT_MIDI_IN)
                 (midiInPortIds W s1) s5;
          s7 = addConnections (\<lambda>portId. unat portId < length (midi_outs s1))
                 (fromCarla RACK_GRAPH_CARLA_PORT_MIDI_OUT RACK_GRAPH_GROUP_MIDI_OUT)
                 (midiOutPortIds W s1) s6
      in s7)"

text \<open>Lines 401 to 413; \<open>patchbayRefreshPatchbay\<close> is empty.\<close>
definition patchbayRefresh :: "header_consts \<Rightarrow> world \<Rightarrow> engine \<Rightarrow> bool \<times> engine" where
  "patchbayRefresh K W s =
     (if \<not> audio_isReady s then (False, emit [SafeAssertFailed] s)
      else
        let s1 = s\<lparr>fUsedMidiPorts := []\<rparr>
        in (True, if graph_isRack s1 then patchbayRefreshRack K W s1 else s1))"

subsection \<open>Opening: \<open>init\<close>\<close>

text \<open>Lines 226 to 243: the first probed device with outputs that has the wanted name.\<close>
definition selectDevice :: "world \<Rightarrow> engine \<Rightarrow> u32 option" where
  "selectDevice W s =
     (if opt_audioDevice s = [] then None
      else find (\<lambda>i. probed (getDeviceInfo W i) \<and> outputChannels (getDeviceInfo W i) > 0
                     \<and> dev_name (getDeviceInfo W i) = opt_audioDevice s)
             (map word_of_nat [0..<unat (getDeviceCount W)]))"

text \<open>
  Lines 201 to 315. The client name is \<open>None\<close> for a null pointer. The calls into the
  engine's base class and its audio buffers are effects; they leave the fields of this
  record alone.
\<close>
definition init :: "header_consts \<Rightarrow> world \<Rightarrow> string option \<Rightarrow> engine \<Rightarrow> bool \<times> engine" where
  "init K W clientName s =
     (if fAudioInCount s \<noteq> 0 \<or> fAudioOutCount s \<noteq> 0 \<or> fLastEventTime s \<noteq> 0
         \<or> clientName = None \<or> clientName = Some []
      then (False, emit [SafeAssertFailed] s)
      else if opt_processMode s \<noteq> ENGINE_PROCESS_MODE_CONTINUOUS_RACK
              \<and> opt_processMode s \<noteq> ENGINE_PROCESS_MODE_PATCHBAY
      then (False, setLastError ''Invalid process mode'' s)
      else if getDeviceCount W = 0
      then (False, setLastError ''No audio devices available for this driver'' s)
      else
        let deviceSet = selectDevice W s;
            s1 = (case deviceSet of
                    Some i \<Rightarrow> s\<lparr>fDeviceName := dev_name (getDeviceInfo W i)\<rparr>
                  | None \<Rightarrow> s);
            iChannels = (case deviceSet of
                    Some i \<Rightarrow> inputChannels (getDeviceInfo W i)
                  | None \<Rightarrow> inputChannels (getDeviceInfo W (getDefaultInputDevice W)));
            oChannels = (case deviceSet of
                    Some i \<Rightarrow> outputChannels (getDeviceInfo W i)
                  | None \<Rightarrow> outputChannels (getDeviceInfo W (getDefaultOutputDevice W)))
        in if oChannels = 0
           then (False, setLastError ''Current audio setup has no outputs, cannot continue'' s1)
           else
             (case openStream W (opt_audioSampleRate s1) (opt_audioBufferSize s1) of
                Inl e \<Rightarrow> (False, setLastError e s1)
              | Inr bufferFrames \<Rightarrow>
                  let rack = (opt_processMode s1 = ENGINE_PROCESS_MODE_CONTINUOUS_RACK);
                      s2 = s1\<lparr>bufferSize := bufferFrames, sampleRate := getStreamSampleRate W,
                              fAudioInCount := iChannels, fAudioOutCount := oChannels,
                              fLastEventTime := 0,
                              audio_inCount := (if rack then 2 else 0),
                              audio_outCount := (if rack then 2 else 0)\<rparr>;
                      s3 = emit [AudioCreate (bufferSize s2), StartStream] s2
                  in (case startStream W of
                        Some e \<Rightarrow> (False, setLastError e (snd (close W s3)))
                      | None \<Rightarrow>
                          let s4 = (emit [BaseInit (case clientName of Some cn \<Rightarrow> cn | None \<Rightarrow> [])] s3)\<lparr>audio_isReady := True\<rparr>
                          in (True, snd (patchbayRefresh K W s4)))))"

subsection \<open>The MIDI port registry\<close>

text \<open>
  The loops of lines 759 to 767 and 811 to 819: the index of the first visible port with
  the wanted name.
\<close>
definition findPortIndex :: "string list \<Rightarrow> string \<Rightarrow> u32 option" where
  "findPortIndex names portName =
     (if portName \<in> set names
      then Some (word_of_nat (length (takeWhile (\<lambda>n. n \<noteq> portName) names)))
      else None)"

text \<open>
  Lines 739 to 791. The port name is \<open>None\<close> for a null pointer; a C string has no NUL
  inside. \<open>strncpy\<close> with the terminator written at \<open>STR_MAX\<close> keeps the first \<open>STR_MAX\<close>
  characters. The result is \<open>Inr\<close> of the returned value, or \<open>Inl\<close> of an exception that
  leaves the function.
\<close>
definition connectRackMidiInPort ::
  "header_consts \<Rightarrow> world \<Rightarrow> string option \<Rightarrow> engine \<Rightarrow> (exn + bool) \<times> engine" where
  "connectRackMidiInPort K W portName s =
     (case portName of
        None \<Rightarrow> (Inr False, emit [SafeAssertFailed] s)
      | Some pn \<Rightarrow>
          if pn = [] then (Inr False, emit [SafeAssertFailed] s)
          else if \<not> length (midi_ins s) > 0 then (Inr False, emit [SafeAssertFailed] s)
          else
            let rtMidiIn = newRtMidi W;
                s1 = emit [NewRtMidiIn rtMidiIn, SetCallback rtMidiIn] s
            in (case findPortIndex (midiInPortNames W) pn of
                  None \<Rightarrow> (Inr False, emit [DeleteRtMidi rtMidiIn] s1)
                | Some rtMidiPortIndex \<Rightarrow>
                    (case openPort W of
                       Some e \<Rightarrow>
                         (Inr False, emit [OpenPort rtMidiIn rtMidiPortIndex, DeleteRtMidi rtMidiIn] s1)
                     | None \<Rightarrow>
                         (Inr True,
                          (emit [OpenPort rtMidiIn rtMidiPortIndex] s1)
                            \<lparr>fMidiIns := fMidiIns s
                               @ [\<lparr>rtmidi = rtMidiIn, name = take (STR_MAX K) pn\<rparr>]\<rparr>))))"

text \<open>Lines 793 to 837. The call of \<open>openPort\<close> is not inside a \<open>try\<close>.\<close>
definition connectRackMidiOutPort ::
  "header_consts \<Rightarrow> world \<Rightarrow> string option \<Rightarrow> engine \<Rightarrow> (exn + bool) \<times> engine" where
  "connectRackMidiOutPort K W portName s =
     (case portName of
        None \<Rightarrow> (Inr False, emit [SafeAssertFailed] s)
      | Some pn \<Rightarrow>
          if pn = [] then (Inr False, emit [SafeAssertFailed] s)
          else if \<not> length (midi_ins s) > 0 then (Inr False, emit [SafeAssertFailed] s)
          else
            let rtMidiOut = newRtMidi W;
                s1 = emit [NewRtMidiOut rtMidiOut] s
            in (case findPortIndex (midiOutPortNames W) pn of
                  None \<Rightarrow> (Inr False, emit [DeleteRtMidi rtMidiOut] s1)
                | Some rtMidiPortIndex \<Rightarrow>
                    (case openPort W of
                       Some e \<Rightarrow> (Inl (RtError e), emit [OpenPort rtMidiOut rtMidiPortIndex] s1)
                     | None \<Rightarrow>
                         (Inr True,
                          (emit [OpenPort rtMidiOut rtMidiPortIndex] s1)
                            \<lparr>fMidiOuts := fMidiOuts s
                               @ [\<lparr>rtmidi = rtMidiOut, name = take (STR_MAX K) pn\<rparr>]\<rparr>))))"

text \<open>
  The loops of lines 847 to 861 and 874 to 887: the first port whose name compares equal
  is taken out of the list; the result is that port and the list without it.
\<close>
fun removeNamed :: "string \<Rightarrow> MidiPort list \<Rightarrow> (MidiPort \<times> MidiPort list) option" where
  "removeNamed portName [] = None"
| "removeNamed portName (midiPort # rest) =
     (if name midiPort \<noteq> portName
      then map_option (\<lambda>(found, rest'). (found, midiPort # rest')) (removeNamed portName rest)
      else Some (midiPort, rest))"

text \<open>Lines 839 to 864.\<close>
definition disconnectRackMidiInPort :: "string option \<Rightarrow> engine \<Rightarrow> bool \<times> engine" where
  "disconnectRackMidiInPort portName s =
     (case portName of
        None \<Rightarrow> (False, emit [SafeAssertFailed] s)
      | Some pn \<Rightarrow>
          if pn = [] then (False, emit [SafeAssertFailed] s)
          else if \<not> length (midi_ins s) > 0 then (False, emit [SafeAssertFailed] s)
          else
            (case removeNamed pn (fMidiIns s) of
               None \<Rightarrow> (False, s)
             | Some (midiPort, rest) \<Rightarrow>
                 (True, (emit [CancelCallback (rtmidi midiPort), DeleteRtMidi (rtmidi midiPort)] s)
                          \<lparr>fMidiIns := rest\<rparr>)))"

text \<open>Lines 866 to 890.\<close>
definition disconnectRackMidiOutPort :: "string option \<Rightarrow> engine \<Rightarrow> bool \<times> engine" where
  "disconnectRackMidiOutPort portName s =
     (case portName of
        None \<Rightarrow> (False, emit [SafeAssertFailed] s)
      | Some pn \<Rightarrow>
          if pn = [] then (False, emit [SafeAssertFailed] s)
          else if \<not> length (midi_ins s) > 0 then (False, emit [SafeAssertFailed] s)
          else
            (case removeNamed pn (fMidiOuts s) of
               None \<Rightarrow> (False, s)
             | Some (midiPort, rest) \<Rightarrow>
                 (True, (emit [DeleteRtMidi (rtmidi midiPort)] s)\<lparr>fMidiOuts := rest\<rparr>)))"

subsection \<open>A closed driver\<close>

text \<open>
  Lines 176 to 187: the constructor zeroes the channel counts and the last event time and
  leaves the lists empty. The fields of \<open>pData\<close> belong to the engine's own constructor;
  they start zeroed here, in rack mode.
\<close>
definition newEngine :: engine where
  "newEngine =
     \<lparr>bufferSize = 0, sampleRate = 0, audio_isReady = False, audio_inCount = 0,
      audio_outCount = 0, graph_isRack = True, timeInfo_frame = 0, events_in = [],
      lastError = [], opt_processMode = ENGINE_PROCESS_MODE_CONTINUOUS_RACK,
      opt_audioDevice = [], opt_audioBufferSize = 512, opt_audioSampleRate = 44100,
      fAudioInCount = 0, fAudioOutCount = 0, fLastEventTime = 0, fDeviceName = [],
      fUsedMidiPorts = [], fMidiIns = [], fMidiOuts = [], data = [], dataPending = [],
      connectedIn1 = [], connectedIn2 = [], connectedOut1 = [], connectedOut2 = [],
      midi_ins = [], midi_outs = [], connections_lastId = 0, connections_list = [],
      trace = []\<rparr>"

text \<open>
  Rounding to the nearest binary64 value, ties to even, for the worlds of the examples.
  \<open>binade\<close> finds the exponent \<open>e\<close> with \<open>2^e \<le> x < 2^(e+1)\<close> by halving or doubling
  (the fuel covers the range of the doubles); below the normal range the exponent stays
  at -1022. The significand has 52 fraction bits. Overflow to infinity is left out.
\<close>
fun binade :: "nat \<Rightarrow> real \<Rightarrow> int" where
  "binade 0 x = 0"
| "binade (Suc fuel) x =
     (if x \<ge> 2 then binade fuel (x / 2) + 1
      else if x < 1 then binade fuel (x * 2) - 1
      else 0)"

definition roundHalfEven :: "real \<Rightarrow> int" where
  "roundHalfEven q =
     (let n = \<lfloor>q\<rfloor>; r = q - of_int n
      in if r < 1 / 2 then n else if r > 1 / 2 then n + 1 else if even n then n else n + 1)"

definition ulp52 :: "int \<Rightarrow> real" where
  "ulp52 e = (if e \<ge> 52 then 2 ^ nat (e - 52) else 1 / 2 ^ nat (52 - e))"

definition ieeeRound :: "real \<Rightarrow> real" where
  "ieeeRound x =
     (if x = 0 then 0
      else
        let e = max (binade 2200 \<bar>x\<bar>) (- 1022);
            u = ulp52 e
        in sgn x * (of_int (roundHalfEven (\<bar>x\<bar> / u)) * u))"

text \<open>A world in which every native call succeeds and nothing is plugged in.\<close>
definition quietWorld :: world where
  "quietWorld =
     \<lparr>getCurrentApi = RTAUDIO_DUMMY, getDeviceCount = 1,
      getDeviceInfo = (\<lambda>i. \<lparr>probed = True, outputChannels = 2, inputChannels = 2,
                              dev_name = ''dummy''\<rparr>),
      getDefaultInputDevice = 0, getDefaultOutputDevice = 0,
      openStream = (\<lambda>rate frames. Inr frames), getStreamSampleRate = 44100,
      startStream = None, isStreamOpen = True, isStreamRunning = True, stopStream = None,
      baseClose = True, newRtMidi = 1, midiInPortNames = [], midiOutPortNames = [],
      openPort = None, connections_clear = (\<lambda>lastId. 0),
      getPortId = (\<lambda>isInput ports portName. 0), tryLock = True,
      processRackFull = (\<lambda>ins inCount outs outCount nframes events. outs),
      roundDouble = ieeeRound\<rparr>"

text \<open>Values of the header constants for the examples below.\<close>
definition exampleConsts :: header_consts where
  "exampleConsts = \<lparr>kDataSize = 4, kMaxEngineEventInternalCount = 512, STR_MAX = 255\<rparr>"

text \<open>An open driver with a buffer of 512 frames, two inputs and two outputs.\<close>
definition readyEngine :: engine where
  "readyEngine = newEngine\<lparr>audio_isReady := True, bufferSize := 512,
                            fAudioInCount := 2, fAudioOutCount := 2\<rparr>"

text \<open>A capacity of two events, to see the capacity reached.\<close>
definition smallConsts :: header_consts where
  "smallConsts = \<lparr>kDataSize = 4, kMaxEngineEventInternalCount = 2, STR_MAX = 255\<rparr>"

text \<open>A queued note-on with the given time.\<close>
definition noteOnAt :: "u64 \<Rightarrow> RtMidiEvent" where
  "noteOnAt t = \<lparr>midi_time = t, midi_size = 3, midi_data = [144, 60, 100, 0]\<rparr>"

text \<open>An open driver whose rack knows one readable MIDI port, and two opened ports.\<close>
definition rackEngine :: engine where
  "rackEngine = readyEngine\<lparr>midi_ins := [\<lparr>pn_group = RACK_GRAPH_GROUP_MIDI_IN, pn_port = 0,
                                            pn_name = ''X'', pn_fullName = ''Readable MIDI ports:X''\<rparr>]\<rparr>"

definition portsEngine :: engine where
  "portsEngine = rackEngine\<lparr>fMidiIns := [\<lparr>rtmidi = 10, name = ''X''\<rparr>, \<lparr>rtmidi = 11, name = ''Y''\<rparr>],
                           fMidiOuts := [\<lparr>rtmidi = 12, name = ''Z''\<rparr>],
                           data := [noteOnAt 1], dataPending := [noteOnAt 2],
                           fLastEventTime := 2, fDeviceName := ''dummy''\<rparr>"

text \<open>A port name of 256 characters.\<close>
definition longPortName :: string where
  "longPortName = replicate 256 (CHR ''a'')"

text \<open>A world whose audio subsystem grants 256 frames at 48000 Hz, whatever is asked.\<close>
definition negotiatingWorld :: world where
  "negotiatingWorld = quietWorld\<lparr>openStream := (\<lambda>rate frames. Inr 256),
                                  getStreamSampleRate := 48000\<rparr>"

text \<open>A world with MIDI ports, and a driver with audio connections in the rack.\<close>
definition pluggedWorld :: world where
  "pluggedWorld = quietWorld\<lparr>midiInPortNames := [''X'', ''Y''], midiOutPortNames := [''Z'']\<rparr>"

definition connectedEngine :: engine where
  "connectedEngine = portsEngine\<lparr>midi_ins := [], connectedIn1 := [0], connectedOut1 := [1, 5]\<rparr>"

text \<open>A world whose only readable MIDI port has the long name.\<close>
definition longNameWorld :: world where
  "longNameWorld = quietWorld\<lparr>midiInPortNames := [longPortName]\<rparr>"

text \<open>A world with MIDI ports in which opening a port throws.\<close>
definition failingWorld :: world where
  "failingWorld = pluggedWorld\<lparr>openPort := Some ''open failed''\<rparr>"

section \<open>Properties\<close>

subsection \<open>MIDI ingestion\<close>

lemma double_0_95_nonneg: "0 \<le> double_0_95"
  by (simp add: double_0_95_def)

lemma normalizeTimeStamp_clamp:
  "normalizeTimeStamp W f = clamp_spec (roundDouble W (f / 2)) 0.0 double_0_95"
  using double_0_95_nonneg
  by (simp add: normalizeTimeStamp_def clamp_spec_def Let_def)

lemma binade_numeral:
  "binade (numeral k) x =
     (if x \<ge> 2 then binade (pred_numeral k) (x / 2) + 1
      else if x < 1 then binade (pred_numeral k) (x * 2) - 1
      else 0)"
  by (simp add: numeral_eq_Suc)

lemmas ieee_eval = ieeeRound_def binade_numeral roundHalfEven_def ulp52_def Let_def

text \<open>
  The double nearest to 0.3 is \<open>5404319552844595 / 2^54\<close>. With a buffer of 480 frames
  its half times the buffer size is just below 72 and rounds to 72 before the truncation.
\<close>
lemma computedTime_rounds_product:
  "computedTime quietWorld (readyEngine\<lparr>bufferSize := 480\<rparr>)
     (5404319552844595 / 18014398509481984) = 72"
  by (simp add: computedTime_def normalizeTimeStamp_def double_0_95_def quietWorld_def
        readyEngine_def newEngine_def ieee_eval)

lemma handleMidiCallback_rejected:
  "\<not> audio_isReady s \<or> msg = [] \<or> length msg > kDataSize K \<Longrightarrow>
     handleMidiCallback K W ts msg s = s"
  by (auto simp: handleMidiCallback_def Let_def)

lemma handleMidiCallback_accepted:
  assumes "audio_isReady s" "msg \<noteq> []" "length msg \<le> kDataSize K"
  shows "handleMidiCallback K W ts msg s
            = s\<lparr>fLastEventTime := max (computedTime W s ts) (fLastEventTime s),
                dataPending := dataPending s @ [\<lparr>midi_time = max (computedTime W s ts) (fLastEventTime s),
                   midi_size = word_of_nat (length msg),
                   midi_data = msg @ replicate (kDataSize K - length msg) 0\<rparr>]\<rparr>"
  using assms by (simp add: handleMidiCallback_def Let_def max_def not_less)

lemma handleMidiCallback_step:
  "\<exists>new. dataPending (handleMidiCallback K W ts msg s) = dataPending s @ new
     \<and> length new \<le> 1
     \<and> (\<forall>e\<in>set new. fLastEventTime s \<le> midi_time e
                    \<and> midi_time e = fLastEventTime (handleMidiCallback K W ts msg s))
     \<and> fLastEventTime s \<le> fLastEventTime (handleMidiCallback K W ts msg s)"
proof (cases "\<not> audio_isReady s \<or> msg = [] \<or> length msg > kDataSize K")
  case True
  then have "handleMidiCallback K W ts msg s = s" by (rule handleMidiCallback_rejected)
  then show ?thesis by simp
next
  case False
  then have a: "audio_isReady s" "msg \<noteq> []" "length msg \<le> kDataSize K" by auto
  show ?thesis
    by (rule exI [of _ "[\<lparr>midi_time = max (computedTime W s ts) (fLastEventTime s),
                   midi_size = word_of_nat (length msg),
                   midi_data = msg @ replicate (kDataSize K - length msg) 0\<rparr>]"])
       (simp add: handleMidiCallback_accepted [OF a])
qed

lemma midiCallbacks_sorted:
  "\<exists>new. dataPending (midiCallbacks K W s calls) = dataPending s @ new
     \<and> sorted (map midi_time new)
     \<and> (\<forall>e\<in>set new. fLastEventTime s \<le> midi_time e
                    \<and> midi_time e \<le> fLastEventTime (midiCallbacks K W s calls))
     \<and> fLastEventTime s \<le> fLastEventTime (midiCallbacks K W s calls)"
proof (induction calls arbitrary: s)
  case Nil
  show ?case by simp
next
  case (Cons c calls)
  obtain fr ts msg where c: "c = (fr, ts, msg)" by (cases c) auto
  define s0 where "s0 = s\<lparr>timeInfo_frame := fr\<rparr>"
  define s1 where "s1 = handleMidiCallback K W ts msg s0"
  have s0: "dataPending s0 = dataPending s" "fLastEventTime s0 = fLastEventTime s"
    by (simp_all add: s0_def)
  have run: "midiCallbacks K W s (c # calls) = midiCallbacks K W s1 calls"
    by (simp add: c s1_def s0_def)
  obtain n1 where n1: "dataPending s1 = dataPending s @ n1" "length n1 \<le> 1"
      "\<forall>e\<in>set n1. fLastEventTime s \<le> midi_time e \<and> midi_time e = fLastEventTime s1"
      "fLastEventTime s \<le> fLastEventTime s1"
    using handleMidiCallback_step [of K W ts msg s0] unfolding s1_def [symmetric] s0 by blast
  obtain n2 where n2: "dataPending (midiCallbacks K W s1 calls) = dataPending s1 @ n2"
      "sorted (map midi_time n2)"
      "\<forall>e\<in>set n2. fLastEventTime s1 \<le> midi_time e
                    \<and> midi_time e \<le> fLastEventTime (midiCallbacks K W s1 calls)"
      "fLastEventTime s1 \<le> fLastEventTime (midiCallbacks K W s1 calls)"
    using Cons.IH [of s1] by blast
  have srt: "sorted (map midi_time (n1 @ n2))"
  proof (cases n1)
    case Nil
    then show ?thesis using n2(2) by simp
  next
    case (Cons e es)
    with n1(2) have "n1 = [e]" by simp
    then show ?thesis using n1(3) n2(2,3) by auto
  qed
  have bnd: "\<forall>e\<in>set (n1 @ n2). fLastEventTime s \<le> midi_time e
                    \<and> midi_time e \<le> fLastEventTime (midiCallbacks K W s1 calls)"
    using n1(3,4) n2(3,4) by (auto intro: order_trans)
  have lst: "fLastEventTime s \<le> fLastEventTime (midiCallbacks K W s1 calls)"
    using n1(4) n2(4) by (rule order_trans)
  have dp: "dataPending (midiCallbacks K W s1 calls) = dataPending s @ (n1 @ n2)"
    using n1(1) n2(1) by simp
  show ?case
    unfolding run using dp srt bnd lst by blast
qed

text \<open>
  Claim C5. For every MIDI event that \<open>handleMidiCallback\<close> ingests, with raw time stamp
  fraction \<open>f\<close>, the normalised fraction is \<open>clamp(f/2, 0.0, 0.95)\<close>: the raw value is
  halved, then raised to 0.0 if negative and lowered to 0.95 if greater. That fraction,
  times the buffer size and truncated, is what is added to the frame counter, and the
  event is queued with this time (or with the last committed time, if that is later).
  The half, the bound 0.95 and the product are those of the double arithmetic.
\<close>
theorem ingested_event_uses_clamped_half:
  "normalizeTimeStamp W f = clamp_spec (roundDouble W (f / 2)) 0.0 double_0_95
   \<and> (audio_isReady s \<and> msg \<noteq> [] \<and> length msg \<le> kDataSize K \<longrightarrow>
        map midi_time (dataPending (handleMidiCallback K W f msg s))
          = map midi_time (dataPending s)
            @ [max (timeInfo_frame s
                     + word_of_nat
                         (nat \<lfloor>roundDouble W (clamp_spec (roundDouble W (f / 2)) 0.0 double_0_95
                                               * real (unat (bufferSize s)))\<rfloor>))
                   (fLastEventTime s)])"
  by (simp add: handleMidiCallback_accepted computedTime_def normalizeTimeStamp_clamp)

theorem ingested_event_uses_clamped_half_witness:
  "audio_isReady (readyEngine\<lparr>bufferSize := 480\<rparr>) \<and> [144, 60, 100 :: u8] \<noteq> []
   \<and> length [144, 60, 100 :: u8] \<le> kDataSize exampleConsts
   \<and> clamp_spec (roundDouble quietWorld (3 / 2)) 0.0 double_0_95 = double_0_95
   \<and> map midi_time (dataPending (handleMidiCallback exampleConsts quietWorld 3 [144, 60, 100]
                                   (readyEngine\<lparr>bufferSize := 480\<rparr>))) = [456]
   \<and> map midi_time (dataPending (handleMidiCallback exampleConsts quietWorld
                                   (5404319552844595 / 18014398509481984) [144, 60, 100]
                                   (readyEngine\<lparr>bufferSize := 480\<rparr>))) = [72]"
proof -
  let ?s = "readyEngine\<lparr>bufferSize := 480\<rparr>"
  have h: "audio_isReady ?s \<and> [144, 60, 100 :: u8] \<noteq> []
           \<and> length [144, 60, 100 :: u8] \<le> kDataSize exampleConsts"
    by (simp add: readyEngine_def newEngine_def exampleConsts_def)
  have st: "dataPending ?s = []" "fLastEventTime ?s = 0" "timeInfo_frame ?s = 0"
      "unat (bufferSize ?s) = 480"
    by (simp_all add: readyEngine_def newEngine_def)
  have c3: "clamp_spec (roundDouble quietWorld (3 / 2)) 0.0 double_0_95 = double_0_95"
    by (simp add: clamp_spec_def double_0_95_def quietWorld_def ieee_eval)
  have p3: "nat \<lfloor>roundDouble quietWorld (double_0_95 * real 480)\<rfloor> = 456"
    by (simp add: double_0_95_def quietWorld_def ieee_eval)
  have c03: "clamp_spec (roundDouble quietWorld (5404319552844595 / 18014398509481984 / 2))
               0.0 double_0_95 = 5404319552844595 / 36028797018963968"
    by (simp add: clamp_spec_def double_0_95_def quietWorld_def ieee_eval)
  have p03: "nat \<lfloor>roundDouble quietWorld (5404319552844595 / 36028797018963968 * real 480)\<rfloor> = 72"
    by (simp add: quietWorld_def ieee_eval)
  from ingested_event_uses_clamped_half [of quietWorld 3 ?s "[144, 60, 100]" exampleConsts] h
  have a: "map midi_time (dataPending (handleMidiCallback exampleConsts quietWorld 3 [144, 60, 100] ?s))
             = [456]"
    unfolding st c3 p3 by simp
  from ingested_event_uses_clamped_half
         [of quietWorld "5404319552844595 / 18014398509481984" ?s "[144, 60, 100]" exampleConsts] h
  have b: "map midi_time (dataPending (handleMidiCallback exampleConsts quietWorld
                                   (5404319552844595 / 18014398509481984) [144, 60, 100] ?s))
             = [72]"
    unfolding st c03 p03 by simp
  show ?thesis using h c3 a b by (intro conjI) simp_all
qed

text \<open>
  Claim C2. An accepted call appends the larger of the computed time stamp and the last
  committed one, and commits it. Over any run of calls the appended time stamps are
  non-decreasing, none is below the last time stamp committed before the run, and the
  committed last time stamp never decreases.
\<close>
theorem ingested_timestamps_monotonic:
  "(audio_isReady s \<and> msg \<noteq> [] \<and> length msg \<le> kDataSize K \<longrightarrow>
      map midi_time (dataPending (handleMidiCallback K W ts msg s))
        = map midi_time (dataPending s) @ [max (computedTime W s ts) (fLastEventTime s)]
      \<and> fLastEventTime (handleMidiCallback K W ts msg s)
          = max (computedTime W s ts) (fLastEventTime s))
   \<and> (\<exists>new. dataPending (midiCallbacks K W s calls) = dataPending s @ new
         \<and> sorted (map midi_time new)
         \<and> (\<forall>e\<in>set new. fLastEventTime s \<le> midi_time e
                    \<and> midi_time e \<le> fLastEventTime (midiCallbacks K W s calls))
         \<and> fLastEventTime s \<le> fLastEventTime (midiCallbacks K W s calls))"
  using midiCallbacks_sorted [of K W s calls]
  by (auto simp: handleMidiCallback_accepted)

theorem ingested_timestamps_monotonic_witness:
  "audio_isReady readyEngine \<and> [144, 60, 100 :: u8] \<noteq> []
   \<and> length [144, 60, 100 :: u8] \<le> kDataSize exampleConsts
   \<and> map midi_time (dataPending (handleMidiCallback exampleConsts quietWorld 1 [144, 60, 100]
                                   (readyEngine\<lparr>timeInfo_frame := 1000\<rparr>))) = [1256]
   \<and> (\<exists>new. dataPending (midiCallbacks exampleConsts quietWorld readyEngine
                 [(1000, 1, [144, 60, 100]), (0, 0.2, [128, 60, 0])]) = new
         \<and> map midi_time new = [1256, 1256]
         \<and> sorted (map midi_time new)
         \<and> (\<forall>e\<in>set new. midi_time e
               \<le> fLastEventTime (midiCallbacks exampleConsts quietWorld readyEngine
                                     [(1000, 1, [144, 60, 100]), (0, 0.2, [128, 60, 0])])))"
proof -
  let ?s = "readyEngine\<lparr>timeInfo_frame := 1000\<rparr>"
  let ?calls = "[(1000, 1, [144, 60, 100]), (0, 0.2, [128, 60, 0])] :: (u64 \<times> real \<times> u8 list) list"
  have hyp: "audio_isReady ?s \<and> [144, 60, 100 :: u8] \<noteq> []
             \<and> length [144, 60, 100 :: u8] \<le> kDataSize exampleConsts"
    by (simp add: readyEngine_def newEngine_def exampleConsts_def)
  have ct: "computedTime quietWorld ?s 1 = 1256"
    by (simp add: computedTime_def normalizeTimeStamp_def double_0_95_def quietWorld_def
          readyEngine_def newEngine_def ieee_eval)
  have pend: "dataPending ?s = []" "fLastEventTime ?s = 0" "dataPending readyEngine = []"
    by (simp_all add: readyEngine_def newEngine_def)
  have times: "map midi_time (dataPending (midiCallbacks exampleConsts quietWorld readyEngine ?calls))
                 = [1256, 1256]"
    by (simp add: handleMidiCallback_def computedTime_def normalizeTimeStamp_def double_0_95_def
          quietWorld_def readyEngine_def newEngine_def exampleConsts_def ieee_eval)
  from ingested_timestamps_monotonic [of ?s "[144, 60, 100]" exampleConsts quietWorld 1 ?calls] hyp
  have one: "map midi_time (dataPending (handleMidiCallback exampleConsts quietWorld 1 [144, 60, 100] ?s))
               = [1256]"
    by (simp add: ct pend)
  from ingested_timestamps_monotonic [of readyEngine "[144, 60, 100]" exampleConsts quietWorld 1 ?calls]
  obtain new where new:
      "dataPending (midiCallbacks exampleConsts quietWorld readyEngine ?calls)
         = dataPending readyEngine @ new"
      "sorted (map midi_time new)"
      "\<forall>e\<in>set new. fLastEventTime readyEngine \<le> midi_time e
          \<and> midi_time e \<le> fLastEventTime (midiCallbacks exampleConsts quietWorld readyEngine ?calls)"
    by blast
  from new(1) have eq: "dataPending (midiCallbacks exampleConsts quietWorld readyEngine ?calls) = new"
    by (simp add: pend)
  show ?thesis
    using hyp one eq times new(2,3)
    by (simp add: readyEngine_def newEngine_def)
qed

subsection \<open>The audio cycle\<close>

lemma translateEvents_char:
  assumes "kMaxEngineEventInternalCount K < 2 ^ 32"
  shows "unat idx < kMaxEngineEventInternalCount K \<Longrightarrow> length evs = kMaxEngineEventInternalCount K \<Longrightarrow>
     translateEvents K frame nframes ms idx evs tr
       = Inr (take (unat idx) evs
                @ map (toEngineEvent frame nframes) (take (kMaxEngineEventInternalCount K - unat idx) ms)
                @ drop (unat idx + length (take (kMaxEngineEventInternalCount K - unat idx) ms)) evs,
              tr @ futureDiagnostics frame nframes (take (kMaxEngineEventInternalCount K - unat idx) ms))"
proof (induction ms arbitrary: idx evs tr)
  case Nil
  then show ?case by (simp add: futureDiagnostics_def)
next
  case (Cons m ms)
  let ?k = "kMaxEngineEventInternalCount K"
  have lt: "unat idx < length evs" using Cons.prems by simp
  have "unat idx + 1 < 2 ^ 32" using Cons.prems(1) assms by linarith
  then have suc: "unat (idx + 1) = Suc (unat idx)"
    by (simp add: unat_word_ariths)
  have upd: "evs[unat idx := e] = take (unat idx) evs @ e # drop (Suc (unat idx)) evs" for e
    using lt by (simp add: upd_conv_take_nth_drop)
  obtain j where j: "?k - unat idx = Suc j" using Cons.prems(1) by (cases "?k - unat idx") auto
  show ?case
  proof (cases "unat (idx + 1) \<ge> ?k")
    case True
    then have j0: "j = 0" using j suc by simp
    show ?thesis using lt True j j0
      by (simp add: Let_def upd futureDiagnostics_def)
  next
    case False
    then have lt': "unat (idx + 1) < ?k" by simp
    have len': "length (evs[unat idx := toEngineEvent frame nframes m]) = ?k"
      using Cons.prems by simp
    have j': "?k - unat (idx + 1) = j" using j suc by simp
    show ?thesis
      using lt False
      apply (simp add: Let_def Cons.IH [OF lt' len'] j j')
      apply (simp add: suc upd futureDiagnostics_def)
      apply (simp add: add.commute [of "unat idx"])
      done
  qed
qed


lemma drainMidiInEvents_locked:
  assumes "0 < kMaxEngineEventInternalCount K" "kMaxEngineEventInternalCount K < 2 ^ 32"
    and "events_in s = replicate (kMaxEngineEventInternalCount K) zeroEngineEvent"
    and "tryLock W"
  shows "drainMidiInEvents K W nframes s
     = Inr (emit (futureDiagnostics (timeInfo_frame s) nframes
                    (take (kMaxEngineEventInternalCount K) (data s @ dataPending s)))
             (s\<lparr>events_in := map (toEngineEvent (timeInfo_frame s) nframes)
                                (take (kMaxEngineEventInternalCount K) (data s @ dataPending s))
                              @ replicate (kMaxEngineEventInternalCount K - length (data s @ dataPending s))
                                  zeroEngineEvent,
                 data := [], dataPending := []\<rparr>))"
proof -
  let ?k = "kMaxEngineEventInternalCount K"
  define ms where "ms = data s @ dataPending s"
  have idx: "unat (0 :: u32) < ?k" using assms(1) by simp
  have len: "length (replicate ?k zeroEngineEvent) = ?k" by simp
  have tr: "translateEvents K (timeInfo_frame s) nframes ms 0 (replicate ?k zeroEngineEvent) []
      = Inr (map (toEngineEvent (timeInfo_frame s) nframes) (take ?k ms)
               @ replicate (?k - length ms) zeroEngineEvent,
             futureDiagnostics (timeInfo_frame s) nframes (take ?k ms))"
    by (simp add: translateEvents_char [OF assms(2) idx len] min_def)
  show ?thesis
    unfolding drainMidiInEvents_def Let_def ms_def [symmetric] assms(3) tr
    using assms(4) by simp
qed

lemma drainMidiInEvents_unlocked:
  "\<not> tryLock W \<Longrightarrow> drainMidiInEvents K W nframes s = Inr s"
  by (simp add: drainMidiInEvents_def)


lemma cycle_early:
  "handleAudioProcessCallback K W None ins nframes s
     = Inr (runPendingRtEvents (emit [SafeAssertFailed] s), None)"
  "bufferSize s \<noteq> nframes \<Longrightarrow> handleAudioProcessCallback K W (Some outs) ins nframes s
     = Inr (runPendingRtEvents (emit [SafeAssertFailed] s), Some outs)"
  "bufferSize s = nframes \<Longrightarrow> \<not> audio_isReady s \<Longrightarrow>
     handleAudioProcessCallback K W (Some outs) ins nframes s
     = Inr (runPendingRtEvents s, Some outs)"
  by (simp_all add: handleAudioProcessCallback_def)

lemma cycle_locked:
  assumes "0 < kMaxEngineEventInternalCount K" "kMaxEngineEventInternalCount K < 2 ^ 32"
    and "bufferSize s = nframes" "audio_isReady s"
    and "unat (nframes * fAudioOutCount s) \<le> length outs"
    and "tryLock W"
  shows "handleAudioProcessCallback K W (Some outs) ins nframes s
     = (let n = unat (nframes * fAudioOutCount s);
            cleared = replicate n 0 @ drop n outs;
            evs = map (toEngineEvent (timeInfo_frame s) nframes)
                    (take (kMaxEngineEventInternalCount K) (data s @ dataPending s))
                  @ replicate (kMaxEngineEventInternalCount K - length (data s @ dataPending s))
                      zeroEngineEvent;
            s2 = emit (futureDiagnostics (timeInfo_frame s) nframes
                         (take (kMaxEngineEventInternalCount K) (data s @ dataPending s)))
                   (s\<lparr>events_in := evs, data := [], dataPending := []\<rparr>)
        in if graph_isRack s
           then Inr (runPendingRtEvents (emit [ProcessRackFull nframes] s2),
                     Some (processRackFull W ins (fAudioInCount s) cleared (fAudioOutCount s) nframes evs))
           else Inr (runPendingRtEvents s2, Some cleared))"
proof -
  let ?s1 = "s\<lparr>events_in := replicate (kMaxEngineEventInternalCount K) zeroEngineEvent\<rparr>"
  have e: "events_in ?s1 = replicate (kMaxEngineEventInternalCount K) zeroEngineEvent" by simp
  show ?thesis
    unfolding handleAudioProcessCallback_def
    using assms(3,4,5)
    by (simp add: Let_def drainMidiInEvents_locked [OF assms(1,2) e assms(6)] emit_def)
qed

lemma cycle_unlocked:
  assumes "bufferSize s = nframes" "audio_isReady s"
    and "unat (nframes * fAudioOutCount s) \<le> length outs"
    and "\<not> tryLock W"
  shows "handleAudioProcessCallback K W (Some outs) ins nframes s
     = (let n = unat (nframes * fAudioOutCount s);
            cleared = replicate n 0 @ drop n outs;
            evs = replicate (kMaxEngineEventInternalCount K) zeroEngineEvent;
            s2 = s\<lparr>events_in := evs\<rparr>
        in if graph_isRack s
           then Inr (runPendingRtEvents (emit [ProcessRackFull nframes] s2),
                     Some (processRackFull W ins (fAudioInCount s) cleared (fAudioOutCount s) nframes evs))
           else Inr (runPendingRtEvents s2, Some cleared))"
  unfolding handleAudioProcessCallback_def
  using assms(1,2,3)
  by (simp add: Let_def drainMidiInEvents_unlocked [OF assms(4)])

lemma engineEventTime_before_window:
  "t < frame \<Longrightarrow> engineEventTime frame nframes t = 0"
  by (simp add: engineEventTime_def)

lemma engineEventTime_future:
  "\<not> t < frame \<Longrightarrow> t \<ge> frame + ucast nframes \<Longrightarrow>
     engineEventTime frame nframes t = ucast frame + nframes - 1"
  by (simp add: engineEventTime_def)

lemma engineEventTime_in_window:
  assumes "unat frame \<le> unat t" "unat t < unat frame + unat nframes"
    and "unat frame + unat nframes < 2 ^ 64"
  shows "unat (engineEventTime frame nframes t) = unat t - unat frame"
    and "\<not> inTheFuture frame nframes t"
proof -
  have a: "\<not> t < frame" using assms(1) by (simp add: word_less_nat_alt)
  have n32: "unat nframes < 2 ^ 32" using unsigned_less [of nframes] by simp
  moreover have "(2::nat) ^ 32 < 2 ^ 64" by simp
  ultimately have "unat nframes < 2 ^ 64" by (rule less_trans)
  then have un: "unat (ucast nframes :: u64) = unat nframes"
    by (simp add: unsigned_ucast_eq take_bit_nat_eq_self)
  have s: "unat (frame + ucast nframes) = unat frame + unat nframes"
    using assms(3) by (simp add: unat_word_ariths un)
  have b: "\<not> t \<ge> frame + ucast nframes"
    using assms(2) s by (simp add: word_le_nat_alt)
  have d: "unat (t - frame) = unat t - unat frame"
    using assms(1) by (simp add: unat_sub word_le_nat_alt)
  have lt: "unat t - unat frame < 2 ^ 32" using assms(2) n32 by linarith
  have "unat (ucast (t - frame) :: u32) = take_bit 32 (unat (t - frame))"
    by (simp add: unsigned_ucast_eq)
  then have "unat (ucast (t - frame) :: u32) = unat t - unat frame"
    using lt d by (simp add: take_bit_nat_eq_self)
  then show "unat (engineEventTime frame nframes t) = unat t - unat frame"
    using a b by (simp add: engineEventTime_def)
  show "\<not> inTheFuture frame nframes t" using b by (simp add: inTheFuture_def)
qed

text \<open>
  Claim C1. An event inside the window gets \<open>timestamp - cycleStart\<close> and one before
  the window gets 0 (\<open>engineEventTime_in_window\<close>, \<open>engineEventTime_before_window\<close>). An
  event at or after the end of the window does not get \<open>frameCount - 1\<close>: the source adds
  the truncated frame counter to it. With the frame counter at 1000, 512 frames and an
  event at 5000, the time written is 1511, not 511, and the diagnostic is printed.
\<close>
theorem future_event_time_adds_frame_counter:
  "engineEventTime 1000 512 5000 = 1511
   \<and> inTheFuture 1000 512 5000
   \<and> map_sum id (map ee_time \<circ> events_in \<circ> fst)
        (handleAudioProcessCallback exampleConsts quietWorld (Some (replicate 1024 1)) None 512
           (readyEngine\<lparr>timeInfo_frame := 1000, data := [noteOnAt 5000]\<rparr>))
       = Inr (1511 # replicate 511 0)
   \<and> map_sum id (trace \<circ> fst)
        (handleAudioProcessCallback exampleConsts quietWorld (Some (replicate 1024 1)) None 512
           (readyEngine\<lparr>timeInfo_frame := 1000, data := [noteOnAt 5000]\<rparr>))
       = Inr [Stderr_MidiEventInTheFuture, ProcessRackFull 512, RunPendingRtEvents]"
proof -
  have a: "engineEventTime 1000 512 5000 = 1511"
    by (simp add: engineEventTime_def word_le_nat_alt word_less_nat_alt)
  have b: "inTheFuture 1000 512 5000"
    by (simp add: inTheFuture_def word_le_nat_alt word_less_nat_alt)
  have c: "handleAudioProcessCallback exampleConsts quietWorld (Some (replicate 1024 1)) None 512
             (readyEngine\<lparr>timeInfo_frame := 1000, data := [noteOnAt 5000]\<rparr>)
           = Inr ((readyEngine\<lparr>timeInfo_frame := 1000, data := [],
                     events_in := toEngineEvent 1000 512 (noteOnAt 5000) # replicate 511 zeroEngineEvent,
                     trace := [Stderr_MidiEventInTheFuture, ProcessRackFull 512, RunPendingRtEvents]\<rparr>),
                  Some (replicate 1024 0))"
    apply (subst cycle_locked)
    apply (simp_all add: exampleConsts_def readyEngine_def newEngine_def quietWorld_def Let_def
             runPendingRtEvents_def emit_def futureDiagnostics_def b noteOnAt_def)
    done
  show ?thesis
    unfolding c using a b by (simp add: toEngineEvent_def noteOnAt_def zeroEngineEvent_def)
qed

text \<open>
  Claim C3, as stated: every invocation zeroes the output buffer before any processing, so
  that on any early return the output is silence, and the frame-count validation is the
  only source of early return. It fails: the three early returns come before the buffer
  is cleared. A cycle of one frame on a driver committed to 512 frames leaves the samples
  as they were, and so does a cycle on a driver that is not ready, whose frame count
  matches.
\<close>
theorem early_return_leaves_output_counterexample:
  "map_sum id snd
     (handleAudioProcessCallback exampleConsts quietWorld (Some [1, 1]) None 1 readyEngine)
     = Inr (Some [1, 1])
   \<and> map_sum id snd
     (handleAudioProcessCallback exampleConsts quietWorld (Some [1, 1]) None 1
        (readyEngine\<lparr>bufferSize := 1, audio_isReady := False\<rparr>))
     = Inr (Some [1, 1])
   \<and> [1, 1] \<noteq> [0, 0 :: real]"
  by (simp add: handleAudioProcessCallback_def readyEngine_def newEngine_def)

text \<open>
  Claim C3, amended. The cycle returns early when the output pointer is null, when the
  frame count differs from the committed buffer size, or when the driver is not ready; it
  then leaves the output buffer and the driver's state as they were and only runs the
  pending real-time events. Otherwise it zeroes the \<open>nframes*fAudioOutCount\<close> samples
  of the output buffer before the events are translated and the rack is processed: the
  rack is handed the cleared buffer, without a rack the cleared buffer is the output, and
  the cycle runs to its end, where the pending real-time events are run.
\<close>
theorem cycle_returns_early_or_clears_output:
  "(outputBuffer = None \<or> bufferSize s \<noteq> nframes \<or> \<not> audio_isReady s \<longrightarrow>
      (\<exists>s'. handleAudioProcessCallback K W outputBuffer ins nframes s = Inr (s', outputBuffer)
         \<and> s'\<lparr>trace := trace s\<rparr> = s \<and> last (trace s') = RunPendingRtEvents))
   \<and> (outputBuffer = Some outs \<and> bufferSize s = nframes \<and> audio_isReady s
        \<and> unat (nframes * fAudioOutCount s) \<le> length outs
        \<and> 0 < kMaxEngineEventInternalCount K \<and> kMaxEngineEventInternalCount K < 2 ^ 32 \<longrightarrow>
      (\<exists>s'. handleAudioProcessCallback K W outputBuffer ins nframes s
            = Inr (s', Some (if graph_isRack s
                             then processRackFull W ins (fAudioInCount s)
                                    (replicate (unat (nframes * fAudioOutCount s)) 0
                                       @ drop (unat (nframes * fAudioOutCount s)) outs)
                                    (fAudioOutCount s) nframes (events_in s')
                             else replicate (unat (nframes * fAudioOutCount s)) 0
                                    @ drop (unat (nframes * fAudioOutCount s)) outs))
         \<and> last (trace s') = RunPendingRtEvents))"
proof (intro conjI impI)
  assume early: "outputBuffer = None \<or> bufferSize s \<noteq> nframes \<or> \<not> audio_isReady s"
  show "\<exists>s'. handleAudioProcessCallback K W outputBuffer ins nframes s = Inr (s', outputBuffer)
         \<and> s'\<lparr>trace := trace s\<rparr> = s \<and> last (trace s') = RunPendingRtEvents"
  proof (cases outputBuffer)
    case None
    then show ?thesis by (simp add: cycle_early(1) runPendingRtEvents_def emit_def)
  next
    case (Some outs')
    show ?thesis
    proof (cases "bufferSize s = nframes")
      case False
      then show ?thesis
        by (simp add: Some cycle_early(2) runPendingRtEvents_def emit_def)
    next
      case True
      with early Some have "\<not> audio_isReady s" by simp
      then show ?thesis
        by (simp add: Some cycle_early(3) [OF True] runPendingRtEvents_def emit_def)
    qed
  qed
next
  assume h: "outputBuffer = Some outs \<and> bufferSize s = nframes \<and> audio_isReady s
        \<and> unat (nframes * fAudioOutCount s) \<le> length outs
        \<and> 0 < kMaxEngineEventInternalCount K \<and> kMaxEngineEventInternalCount K < 2 ^ 32"
  then have ob: "outputBuffer = Some outs" and bs: "bufferSize s = nframes"
    and rd: "audio_isReady s" and ln: "unat (nframes * fAudioOutCount s) \<le> length outs"
    and k0: "0 < kMaxEngineEventInternalCount K" and k1: "kMaxEngineEventInternalCount K < 2 ^ 32"
    by simp_all
  show "\<exists>s'. handleAudioProcessCallback K W outputBuffer ins nframes s
            = Inr (s', Some (if graph_isRack s
                             then processRackFull W ins (fAudioInCount s)
                                    (replicate (unat (nframes * fAudioOutCount s)) 0
                                       @ drop (unat (nframes * fAudioOutCount s)) outs)
                                    (fAudioOutCount s) nframes (events_in s')
                             else replicate (unat (nframes * fAudioOutCount s)) 0
                                    @ drop (unat (nframes * fAudioOutCount s)) outs))
         \<and> last (trace s') = RunPendingRtEvents"
  proof (cases "tryLock W")
    case True
    show ?thesis
      unfolding ob
      by (cases "graph_isRack s")
         (simp_all add: cycle_locked [OF k0 k1 bs rd ln True] Let_def runPendingRtEvents_def emit_def)
  next
    case False
    show ?thesis
      unfolding ob
      by (cases "graph_isRack s")
         (simp_all add: cycle_unlocked [OF bs rd ln False] Let_def runPendingRtEvents_def emit_def)
  qed
qed

theorem cycle_returns_early_or_clears_output_witness:
  "bufferSize readyEngine \<noteq> 1
   \<and> (\<exists>s'. handleAudioProcessCallback exampleConsts quietWorld (Some [1, 1]) None 1 readyEngine
              = Inr (s', Some [1, 1])
          \<and> s'\<lparr>trace := trace readyEngine\<rparr> = readyEngine)
   \<and> bufferSize (readyEngine\<lparr>bufferSize := 1, graph_isRack := False\<rparr>) = 1
   \<and> audio_isReady (readyEngine\<lparr>bufferSize := 1, graph_isRack := False\<rparr>)
   \<and> unat (1 * fAudioOutCount (readyEngine\<lparr>bufferSize := 1, graph_isRack := False\<rparr>))
        \<le> length [1, 1 :: real]
   \<and> 0 < kMaxEngineEventInternalCount exampleConsts
   \<and> kMaxEngineEventInternalCount exampleConsts < 2 ^ 32
   \<and> (\<exists>s'. handleAudioProcessCallback exampleConsts quietWorld (Some [1, 1]) None 1
               (readyEngine\<lparr>bufferSize := 1, graph_isRack := False\<rparr>)
              = Inr (s', Some [0, 0]))"
proof -
  let ?s = "readyEngine\<lparr>bufferSize := 1, graph_isRack := False\<rparr>"
  have h1: "bufferSize readyEngine \<noteq> 1"
    by (simp add: readyEngine_def newEngine_def)
  have h2: "bufferSize ?s = 1" "audio_isReady ?s" "\<not> graph_isRack ?s"
      "unat (1 * fAudioOutCount ?s) \<le> length [1, 1 :: real]"
      "unat (1 * fAudioOutCount ?s) = 2"
      "0 < kMaxEngineEventInternalCount exampleConsts"
      "kMaxEngineEventInternalCount exampleConsts < 2 ^ 32"
    by (simp_all add: readyEngine_def newEngine_def exampleConsts_def)
  from cycle_returns_early_or_clears_output
         [of "Some [1, 1]" readyEngine 1 exampleConsts quietWorld None "[1, 1]"] h1
  have e: "\<exists>s'. handleAudioProcessCallback exampleConsts quietWorld (Some [1, 1]) None 1 readyEngine
              = Inr (s', Some [1, 1])
          \<and> s'\<lparr>trace := trace readyEngine\<rparr> = readyEngine"
    by blast
  have cl: "replicate (unat (1 * fAudioOutCount ?s)) 0 @ drop (unat (1 * fAudioOutCount ?s)) [1, 1]
              = [0, 0 :: real]"
    unfolding h2(5) by (simp add: numeral_2_eq_2)
  have prem: "Some [1, 1 :: real] = Some [1, 1] \<and> bufferSize ?s = 1 \<and> audio_isReady ?s
        \<and> unat (1 * fAudioOutCount ?s) \<le> length [1, 1 :: real]
        \<and> 0 < kMaxEngineEventInternalCount exampleConsts
        \<and> kMaxEngineEventInternalCount exampleConsts < 2 ^ 32"
    using h2(1,2,4,6,7) by blast
  from cycle_returns_early_or_clears_output
         [of "Some [1, 1]" ?s 1 exampleConsts quietWorld None "[1, 1]",
          THEN conjunct2, rule_format, OF prem]
  obtain s' where "handleAudioProcessCallback exampleConsts quietWorld (Some [1, 1]) None 1 ?s
      = Inr (s', Some (if graph_isRack ?s
                       then processRackFull quietWorld None (fAudioInCount ?s)
                              (replicate (unat (1 * fAudioOutCount ?s)) 0
                                 @ drop (unat (1 * fAudioOutCount ?s)) [1, 1])
                              (fAudioOutCount ?s) 1 (events_in s')
                       else replicate (unat (1 * fAudioOutCount ?s)) 0
                              @ drop (unat (1 * fAudioOutCount ?s)) [1, 1]))"
    by blast
  then have "handleAudioProcessCallback exampleConsts quietWorld (Some [1, 1]) None 1 ?s
      = Inr (s', Some [0, 0])"
    unfolding cl using h2(3) by simp
  then have n: "\<exists>s'. handleAudioProcessCallback exampleConsts quietWorld (Some [1, 1]) None 1 ?s
              = Inr (s', Some [0, 0])"
    by blast
  show ?thesis using h1 h2(1,2,4,6,7) e n by blast
qed

text \<open>
  Claim C10. In a cycle that gets past the early returns, the events translated into the
  engine's input array are the first \<open>kMaxEngineEventInternalCount\<close> of the drained
  list, in order, followed by zeroed entries: no write reaches the index
  \<open>kMaxEngineEventInternalCount\<close> (the cycle does not fault and the array keeps its length).
  When the mutex was taken both partitions are empty afterwards, so the events beyond
  the capacity are gone and not carried to the next cycle; when it was not, nothing is
  translated and both partitions stay as they were. The capacity is positive and fits
  32 bits.
\<close>
theorem drained_events_bounded_rest_discarded:
  assumes "0 < kMaxEngineEventInternalCount K" "kMaxEngineEventInternalCount K < 2 ^ 32"
    and "bufferSize s = nframes" "audio_isReady s"
    and "unat (nframes * fAudioOutCount s) \<le> length outs"
  shows "\<exists>s' out'. handleAudioProcessCallback K W (Some outs) ins nframes s = Inr (s', out')
      \<and> length (events_in s') = kMaxEngineEventInternalCount K
      \<and> (tryLock W \<longrightarrow>
            events_in s' = map (toEngineEvent (timeInfo_frame s) nframes)
                             (take (kMaxEngineEventInternalCount K) (data s @ dataPending s))
                           @ replicate (kMaxEngineEventInternalCount K - length (data s @ dataPending s))
                               zeroEngineEvent
            \<and> data s' = [] \<and> dataPending s' = [])
      \<and> (\<not> tryLock W \<longrightarrow>
            events_in s' = replicate (kMaxEngineEventInternalCount K) zeroEngineEvent
            \<and> data s' = data s \<and> dataPending s' = dataPending s)"
proof (cases "tryLock W")
  case True
  show ?thesis
    using True
    by (cases "graph_isRack s")
       (simp_all add: cycle_locked [OF assms True] Let_def runPendingRtEvents_def emit_def min_def)
next
  case False
  show ?thesis
    using False
    by (cases "graph_isRack s")
       (simp_all add: cycle_unlocked [OF assms(3,4,5) False] Let_def runPendingRtEvents_def emit_def)
qed

theorem drained_events_bounded_rest_discarded_witness:
  "0 < kMaxEngineEventInternalCount smallConsts
   \<and> kMaxEngineEventInternalCount smallConsts < 2 ^ 32
   \<and> bufferSize (readyEngine\<lparr>data := [noteOnAt 1, noteOnAt 2], dataPending := [noteOnAt 3]\<rparr>) = 512
   \<and> audio_isReady (readyEngine\<lparr>data := [noteOnAt 1, noteOnAt 2], dataPending := [noteOnAt 3]\<rparr>)
   \<and> unat (512 * fAudioOutCount (readyEngine\<lparr>data := [noteOnAt 1, noteOnAt 2],
                                               dataPending := [noteOnAt 3]\<rparr>))
        \<le> length (replicate 1024 (1 :: real))
   \<and> tryLock quietWorld
   \<and> (\<exists>s' out'. handleAudioProcessCallback smallConsts quietWorld (Some (replicate 1024 1)) None 512
                    (readyEngine\<lparr>data := [noteOnAt 1, noteOnAt 2], dataPending := [noteOnAt 3]\<rparr>)
                   = Inr (s', out')
          \<and> map ee_time (events_in s') = [1, 2]
          \<and> data s' = [] \<and> dataPending s' = [])"
proof -
  let ?s = "readyEngine\<lparr>data := [noteOnAt 1, noteOnAt 2], dataPending := [noteOnAt 3]\<rparr>"
  have h: "0 < kMaxEngineEventInternalCount smallConsts"
      "kMaxEngineEventInternalCount smallConsts < 2 ^ 32"
      "bufferSize ?s = 512" "audio_isReady ?s"
      "unat (512 * fAudioOutCount ?s) \<le> length (replicate 1024 (1 :: real))"
    by (simp_all add: readyEngine_def newEngine_def smallConsts_def)
  have l: "tryLock quietWorld" by (simp add: quietWorld_def)
  have ev: "map ee_time
              (map (toEngineEvent (timeInfo_frame ?s) 512)
                 (take (kMaxEngineEventInternalCount smallConsts) (data ?s @ dataPending ?s))
               @ replicate (kMaxEngineEventInternalCount smallConsts - length (data ?s @ dataPending ?s))
                   zeroEngineEvent) = [1, 2]"
    by (simp add: readyEngine_def newEngine_def smallConsts_def toEngineEvent_def noteOnAt_def
          engineEventTime_def word_le_nat_alt word_less_nat_alt)
  from drained_events_bounded_rest_discarded [OF h, of quietWorld None] l
  obtain s' out' where r:
      "handleAudioProcessCallback smallConsts quietWorld (Some (replicate 1024 1)) None 512 ?s
         = Inr (s', out')"
      "events_in s' = map (toEngineEvent (timeInfo_frame ?s) 512)
                        (take (kMaxEngineEventInternalCount smallConsts) (data ?s @ dataPending ?s))
                      @ replicate (kMaxEngineEventInternalCount smallConsts
                                     - length (data ?s @ dataPending ?s)) zeroEngineEvent"
      "data s' = []" "dataPending s' = []"
    by blast
  have m: "map ee_time (events_in s') = [1, 2]" unfolding r(2) by (rule ev)
  have ex: "\<exists>s' out'. handleAudioProcessCallback smallConsts quietWorld (Some (replicate 1024 1)) None 512 ?s
                   = Inr (s', out')
          \<and> map ee_time (events_in s') = [1, 2]
          \<and> data s' = [] \<and> dataPending s' = []"
    using r(1,3,4) m by (intro exI conjI)
  show ?thesis
    using h l ex by (intro conjI)
qed

subsection \<open>Closing\<close>

lemma destroyMidiIns_eq:
  "destroyMidiIns ports
     = concat (map (\<lambda>port. [CancelCallback (rtmidi port), DeleteRtMidi (rtmidi port)]) ports)"
  by (induction ports) simp_all

lemma destroyMidiOuts_eq:
  "destroyMidiOuts ports = map (\<lambda>port. DeleteRtMidi (rtmidi port)) ports"
  by (induction ports) simp_all

lemma closeAudioStream_fields:
  "fMidiIns (fst (closeAudioStream W h s)) = fMidiIns s"
  "fMidiOuts (fst (closeAudioStream W h s)) = fMidiOuts s"
  by (simp_all add: closeAudioStream_def emit_def setLastError_def split: option.splits)

lemma closeAudioStream_hasError:
  "snd (closeAudioStream W h s)
     = (h \<or> (isStreamOpen W \<and> isStreamRunning W \<and> stopStream W \<noteq> None))"
  by (auto simp: closeAudioStream_def emit_def setLastError_def split: option.splits)

lemma closeAudioStream_lastError:
  "lastError (fst (closeAudioStream W h s))
     = (case stopStream W of
          Some e \<Rightarrow> if \<not> h \<and> isStreamOpen W \<and> isStreamRunning W then e else lastError s
        | None \<Rightarrow> lastError s)"
  by (auto simp: closeAudioStream_def emit_def setLastError_def split: option.splits)

lemma closeAudioStream_trace:
  "trace (fst (closeAudioStream W h s))
     = trace s @ (if isStreamOpen W
                  then (if isStreamRunning W then [StopStream] else []) @ [CloseStream] else [])"
  by (auto simp: closeAudioStream_def emit_def setLastError_def split: option.splits)

lemma close_result:
  "fst (close W s) = (baseClose W \<and> \<not> (isStreamOpen W \<and> isStreamRunning W \<and> stopStream W \<noteq> None))"
  using closeAudioStream_hasError [of W "\<not> baseClose W"]
  by (simp add: close_def Let_def split_beta)

lemma close_lastError:
  "lastError (snd (close W s))
     = (case stopStream W of
          Some e \<Rightarrow> if baseClose W \<and> isStreamOpen W \<and> isStreamRunning W then e else lastError s
        | None \<Rightarrow> lastError s)"
  by (auto simp: close_def Let_def split_beta emit_def closeAudioStream_lastError split: option.splits)

lemma close_cleared:
  "fAudioInCount (snd (close W s)) = 0" "fAudioOutCount (snd (close W s)) = 0"
  "fLastEventTime (snd (close W s)) = 0" "fDeviceName (snd (close W s)) = []"
  "fUsedMidiPorts (snd (close W s)) = []" "data (snd (close W s)) = []"
  "dataPending (snd (close W s)) = []" "fMidiIns (snd (close W s)) = []"
  "fMidiOuts (snd (close W s)) = []"
  by (simp_all add: close_def Let_def split_beta)

lemma close_trace:
  "trace (snd (close W s))
     = trace s @ (if fAudioOutCount s \<noteq> 0 then [] else [SafeAssertFailed]) @ [BaseClose]
         @ (if isStreamOpen W
            then (if isStreamRunning W then [StopStream] else []) @ [CloseStream] else [])
         @ destroyMidiIns (fMidiIns s) @ destroyMidiOuts (fMidiOuts s)"
  by (simp add: close_def Let_def split_beta emit_def closeAudioStream_trace closeAudioStream_fields)

text \<open>
  Claim C6. \<open>close\<close> returns failure when stopping the stream raised an error, and
  records the message unless the base class had already failed (the first error wins).
  It succeeds exactly when neither failed. Whatever failed, the teardown runs to its
  end: after the stream every MIDI input has its callback cancelled and is then deleted,
  every MIDI output is deleted, the port lists, the event queue, the device name and the
  used ports are cleared, and the channel counts and the last event time are zero.
\<close>
theorem close_reports_first_error_and_completes:
  "(isStreamOpen W \<and> isStreamRunning W \<and> stopStream W = Some e \<longrightarrow>
      \<not> fst (close W s)
      \<and> lastError (snd (close W s)) = (if baseClose W then e else lastError s))
   \<and> (fst (close W s)
        \<longleftrightarrow> baseClose W \<and> \<not> (isStreamOpen W \<and> isStreamRunning W \<and> stopStream W \<noteq> None))
   \<and> fAudioInCount (snd (close W s)) = 0 \<and> fAudioOutCount (snd (close W s)) = 0
   \<and> fLastEventTime (snd (close W s)) = 0
   \<and> fMidiIns (snd (close W s)) = [] \<and> fMidiOuts (snd (close W s)) = []
   \<and> data (snd (close W s)) = [] \<and> dataPending (snd (close W s)) = []
   \<and> fUsedMidiPorts (snd (close W s)) = [] \<and> fDeviceName (snd (close W s)) = []
   \<and> trace (snd (close W s))
       = trace s @ (if fAudioOutCount s \<noteq> 0 then [] else [SafeAssertFailed]) @ [BaseClose]
           @ (if isStreamOpen W
              then (if isStreamRunning W then [StopStream] else []) @ [CloseStream] else [])
           @ concat (map (\<lambda>port. [CancelCallback (rtmidi port), DeleteRtMidi (rtmidi port)])
                       (fMidiIns s))
           @ map (\<lambda>port. DeleteRtMidi (rtmidi port)) (fMidiOuts s)"
  by (simp add: close_result close_lastError close_cleared close_trace
        destroyMidiIns_eq destroyMidiOuts_eq)

theorem close_reports_first_error_and_completes_witness:
  "isStreamOpen (quietWorld\<lparr>stopStream := Some ''stop failed''\<rparr>)
   \<and> isStreamRunning (quietWorld\<lparr>stopStream := Some ''stop failed''\<rparr>)
   \<and> stopStream (quietWorld\<lparr>stopStream := Some ''stop failed''\<rparr>) = Some ''stop failed''
   \<and> \<not> fst (close (quietWorld\<lparr>stopStream := Some ''stop failed''\<rparr>) portsEngine)
   \<and> lastError (snd (close (quietWorld\<lparr>stopStream := Some ''stop failed''\<rparr>) portsEngine))
       = ''stop failed''
   \<and> fMidiIns (snd (close (quietWorld\<lparr>stopStream := Some ''stop failed''\<rparr>) portsEngine)) = []
   \<and> trace (snd (close (quietWorld\<lparr>stopStream := Some ''stop failed''\<rparr>) portsEngine))
       = [BaseClose, StopStream, CloseStream, CancelCallback 10, DeleteRtMidi 10,
          CancelCallback 11, DeleteRtMidi 11, DeleteRtMidi 12]"
proof -
  let ?W = "quietWorld\<lparr>stopStream := Some ''stop failed''\<rparr>"
  have h: "isStreamOpen ?W" "isStreamRunning ?W" "stopStream ?W = Some ''stop failed''"
      "baseClose ?W"
    by (simp_all add: quietWorld_def)
  have st: "fAudioOutCount portsEngine \<noteq> 0" "trace portsEngine = []"
      "fMidiIns portsEngine = [\<lparr>rtmidi = 10, name = ''X''\<rparr>, \<lparr>rtmidi = 11, name = ''Y''\<rparr>]"
      "fMidiOuts portsEngine = [\<lparr>rtmidi = 12, name = ''Z''\<rparr>]"
    by (simp_all add: portsEngine_def rackEngine_def readyEngine_def newEngine_def)
  show ?thesis
    using close_reports_first_error_and_completes [of ?W "''stop failed''" portsEngine] h
    by (simp add: st)
qed

subsection \<open>The patchbay\<close>

lemma connectionsAnnounced_append:
  "connectionsAnnounced (a @ b) = connectionsAnnounced a @ connectionsAnnounced b"
  by (induction a rule: connectionsAnnounced.induct) simp_all

lemma connectionsAnnounced_hwPorts: "connectionsAnnounced (hwPorts g n) = []"
  by (induction n) (simp_all add: hwPorts_def connectionsAnnounced_append)

text \<open>The identifiers \<open>b+1, b+2, ...\<close> of a list of connections.\<close>
lemma ids_upt_Suc:
  "map (\<lambda>k. (b :: u32) + word_of_nat (Suc k)) [0..<Suc n]
     = (b + 1) # map (\<lambda>k. (b + 1) + word_of_nat (Suc k)) [0..<n]"
proof -
  have "[0..<Suc n] = 0 # map Suc [0..<n]"
    by (simp add: upt_conv_Cons map_Suc_upt del: upt_Suc)
  then show ?thesis by (simp add: add.assoc del: upt_Suc)
qed

lemma addConnections_segment:
  assumes mk: "\<And>i p. conn_id (mk i p) = i"
  shows "\<exists>cs. connections_list (addConnections ok mk ps s) = connections_list s @ cs
      \<and> map conn_id cs = map (\<lambda>k. connections_lastId s + word_of_nat (Suc k)) [0..<length cs]
      \<and> connections_lastId (addConnections ok mk ps s)
           = connections_lastId s + word_of_nat (length cs)
      \<and> length cs \<le> length ps
      \<and> (\<forall>c\<in>set cs. \<exists>i p. c = mk i p)
      \<and> (\<exists>tr. trace (addConnections ok mk ps s) = trace s @ tr \<and> connectionsAnnounced tr = cs)"
proof (induction ps arbitrary: s)
  case Nil
  show ?case by simp
next
  case (Cons p ps)
  show ?case
  proof (cases "ok p")
    case False
    obtain cs tr where cs:
      "connections_list (addConnections ok mk ps (emit [SafeAssertFailed] s))
         = connections_list (emit [SafeAssertFailed] s) @ cs"
      "map conn_id cs
         = map (\<lambda>k. connections_lastId (emit [SafeAssertFailed] s) + word_of_nat (Suc k)) [0..<length cs]"
      "connections_lastId (addConnections ok mk ps (emit [SafeAssertFailed] s))
         = connections_lastId (emit [SafeAssertFailed] s) + word_of_nat (length cs)"
      "length cs \<le> length ps" "\<forall>c\<in>set cs. \<exists>i p. c = mk i p"
      "trace (addConnections ok mk ps (emit [SafeAssertFailed] s))
         = trace (emit [SafeAssertFailed] s) @ tr" "connectionsAnnounced tr = cs"
      using Cons.IH [of "emit [SafeAssertFailed] s"] by blast
    have t: "trace (addConnections ok mk (p # ps) s) = trace s @ (SafeAssertFailed # tr)"
      using False cs(6) by (simp add: emit_def)
    have a: "connectionsAnnounced (SafeAssertFailed # tr) = cs" using cs(7) by simp
    show ?thesis
      apply (rule exI [of _ cs])
      using False cs(1-5) t a by (auto simp: emit_def)
  next
    case True
    let ?c = "mk (connections_lastId s + 1) p"
    let ?s' = "emit [ConnectionAdded ?c]
                 (s\<lparr>connections_lastId := connections_lastId s + 1,
                    connections_list := connections_list s @ [?c]\<rparr>)"
    have f: "connections_lastId ?s' = connections_lastId s + 1"
        "connections_list ?s' = connections_list s @ [?c]"
        "trace ?s' = trace s @ [ConnectionAdded ?c]"
      by (simp_all add: emit_def)
    have step: "addConnections ok mk (p # ps) s = addConnections ok mk ps ?s'"
      using True by (simp add: Let_def)
    obtain cs tr where cs:
      "connections_list (addConnections ok mk ps ?s') = connections_list ?s' @ cs"
      "map conn_id cs = map (\<lambda>k. connections_lastId ?s' + word_of_nat (Suc k)) [0..<length cs]"
      "connections_lastId (addConnections ok mk ps ?s')
         = connections_lastId ?s' + word_of_nat (length cs)"
      "length cs \<le> length ps" "\<forall>c\<in>set cs. \<exists>i p. c = mk i p"
      "trace (addConnections ok mk ps ?s') = trace ?s' @ tr" "connectionsAnnounced tr = cs"
      using Cons.IH [of ?s'] by blast
    have ids: "map conn_id (?c # cs)
        = map (\<lambda>k. connections_lastId s + word_of_nat (Suc k)) [0..<length (?c # cs)]"
    proof -
      have e1: "conn_id ?c = connections_lastId s + 1" by (rule mk)
      have e2: "map conn_id cs
          = map (\<lambda>k. (connections_lastId s + 1) + word_of_nat (Suc k)) [0..<length cs]"
        using cs(2) unfolding f(1) .
      have "map conn_id (?c # cs) = conn_id ?c # map conn_id cs" by (rule list.map(2))
      also have "\<dots> = (connections_lastId s + 1)
                     # map (\<lambda>k. (connections_lastId s + 1) + word_of_nat (Suc k)) [0..<length cs]"
        unfolding e1 e2 ..
      also have "\<dots> = map (\<lambda>k. connections_lastId s + word_of_nat (Suc k)) [0..<Suc (length cs)]"
        by (rule ids_upt_Suc [symmetric])
      finally have x: "map conn_id (?c # cs)
          = map (\<lambda>k. connections_lastId s + word_of_nat (Suc k)) [0..<Suc (length cs)]" .
      have y: "length (?c # cs) = Suc (length cs)" by simp
      show ?thesis unfolding y by (rule x)
    qed
    have l: "connections_list (addConnections ok mk (p # ps) s) = connections_list s @ (?c # cs)"
      unfolding step cs(1) f(2) by simp
    have n: "connections_lastId (addConnections ok mk (p # ps) s)
         = connections_lastId s + word_of_nat (length (?c # cs))"
      unfolding step cs(3) f(1) by (simp add: add.assoc)
    have t: "trace (addConnections ok mk (p # ps) s) = trace s @ (ConnectionAdded ?c # tr)"
      unfolding step cs(6) f(3) by simp
    have a: "connectionsAnnounced (ConnectionAdded ?c # tr) = ?c # cs" using cs(7) by simp
    have m: "\<forall>c\<in>set (?c # cs). \<exists>i p. c = mk i p" using cs(5) by auto
    have len: "length (?c # cs) \<le> length (p # ps)" using cs(4) by simp
    show ?thesis
      using l ids n len m t a by blast
  qed
qed


lemma ids_append:
  "map (\<lambda>k. (b :: u32) + word_of_nat (Suc k)) [0..<n]
     @ map (\<lambda>k. (b + word_of_nat n) + word_of_nat (Suc k)) [0..<m]
   = map (\<lambda>k. b + word_of_nat (Suc k)) [0..<n + m]"
  by (induction m) (simp_all add: ac_simps)

lemma addConnections_run:
  assumes mk: "\<And>i p. conn_id (mk i p) = i"
    and ids: "map conn_id (connections_list s)
                = map (\<lambda>k. b + word_of_nat (Suc k)) [0..<length (connections_list s)]"
    and lastId: "connections_lastId s = b + word_of_nat (length (connections_list s))"
  shows "\<exists>cs. connections_list (addConnections ok mk ps s) = connections_list s @ cs
      \<and> length cs \<le> length ps
      \<and> (\<forall>c\<in>set cs. \<exists>i p. c = mk i p)
      \<and> connectionsAnnounced (trace (addConnections ok mk ps s))
           = connectionsAnnounced (trace s) @ cs
      \<and> map conn_id (connections_list (addConnections ok mk ps s))
           = map (\<lambda>k. b + word_of_nat (Suc k))
               [0..<length (connections_list (addConnections ok mk ps s))]
      \<and> connections_lastId (addConnections ok mk ps s)
           = b + word_of_nat (length (connections_list (addConnections ok mk ps s)))"
proof -
  let ?s' = "addConnections ok mk ps s"
  let ?n = "length (connections_list s)"
  obtain cs tr where cs:
      "connections_list ?s' = connections_list s @ cs"
      "map conn_id cs = map (\<lambda>k. connections_lastId s + word_of_nat (Suc k)) [0..<length cs]"
      "connections_lastId ?s' = connections_lastId s + word_of_nat (length cs)"
      "length cs \<le> length ps" "\<forall>c\<in>set cs. \<exists>i p. c = mk i p"
      "trace ?s' = trace s @ tr" "connectionsAnnounced tr = cs"
    using addConnections_segment [of mk ok ps s, OF mk] by blast
  have a: "connectionsAnnounced (trace ?s') = connectionsAnnounced (trace s) @ cs"
    unfolding cs(6) connectionsAnnounced_append cs(7) ..
  have i: "map conn_id (connections_list ?s')
             = map (\<lambda>k. b + word_of_nat (Suc k)) [0..<length (connections_list ?s')]"
  proof -
    have "map conn_id (connections_list ?s')
            = map conn_id (connections_list s) @ map conn_id cs"
      unfolding cs(1) by simp
    also have "\<dots> = map (\<lambda>k. b + word_of_nat (Suc k)) [0..<?n]
                     @ map (\<lambda>k. (b + word_of_nat ?n) + word_of_nat (Suc k)) [0..<length cs]"
      unfolding ids [symmetric] cs(2) lastId ..
    also have "\<dots> = map (\<lambda>k. b + word_of_nat (Suc k)) [0..<?n + length cs]"
      by (rule ids_append)
    finally show ?thesis unfolding cs(1) by simp
  qed
  have l: "connections_lastId ?s' = b + word_of_nat (length (connections_list ?s'))"
    unfolding cs(3) cs(1) lastId by (simp add: add.assoc)
  show ?thesis using cs(1,4,5) a i l by blast
qed

lemma announcePorts_fields:
  "connections_list (announcePorts K W s) = connections_list s"
  "connections_lastId (announcePorts K W s) = connections_lastId s"
  "connectedIn1 (announcePorts K W s) = connectedIn1 s"
  "connectedIn2 (announcePorts K W s) = connectedIn2 s"
  "connectedOut1 (announcePorts K W s) = connectedOut1 s"
  "connectedOut2 (announcePorts K W s) = connectedOut2 s"
  "fMidiIns (announcePorts K W s) = fMidiIns s"
  "fMidiOuts (announcePorts K W s) = fMidiOuts s"
  "connectionsAnnounced (trace (announcePorts K W s)) = connectionsAnnounced (trace s)"
  by (simp_all add: announcePorts_def Let_def emit_def connectionsAnnounced_append
        connectionsAnnounced_hwPorts)

lemma conn_id_mk:
  "conn_id (toCarla g cp i p) = i" "conn_id (fromCarla cp g i p) = i"
  by (simp_all add: toCarla_def fromCarla_def)

lemma patchbayRefreshRack_connections:
  fixes K W s
  defines "b \<equiv> connections_clear W (connections_lastId s)"
  defines "s' \<equiv> patchbayRefreshRack K W s"
  shows "\<exists>audioIn audioOut midiIn midiOut.
      connections_list s' = audioIn @ audioOut @ midiIn @ midiOut
      \<and> (\<forall>c\<in>set audioIn. groupA c = RACK_GRAPH_GROUP_AUDIO_IN \<and> groupB c = RACK_GRAPH_GROUP_CARLA)
      \<and> (\<forall>c\<in>set audioOut. groupA c = RACK_GRAPH_GROUP_CARLA \<and> groupB c = RACK_GRAPH_GROUP_AUDIO_OUT)
      \<and> (\<forall>c\<in>set midiIn. groupA c = RACK_GRAPH_GROUP_MIDI_IN \<and> groupB c = RACK_GRAPH_GROUP_CARLA)
      \<and> (\<forall>c\<in>set midiOut. groupA c = RACK_GRAPH_GROUP_CARLA \<and> groupB c = RACK_GRAPH_GROUP_MIDI_OUT)
      \<and> length (connections_list s')
          \<le> length (connectedIn1 s) + length (connectedIn2 s) + length (connectedOut1 s)
             + length (connectedOut2 s) + length (fMidiIns s) + length (fMidiOuts s)
      \<and> connectionsAnnounced (trace s') = connectionsAnnounced (trace s) @ connections_list s'
      \<and> map conn_id (connections_list s')
          = map (\<lambda>k. b + word_of_nat (Suc k)) [0..<length (connections_list s')]
      \<and> connections_lastId s' = b + word_of_nat (length (connections_list s'))"
proof -
  define s1 where "s1 = announcePorts K W
      (s\<lparr>connections_lastId := connections_clear W (connections_lastId s), connections_list := []\<rparr>)"
  define s2 where "s2 = addConnections (\<lambda>portId. portId < fAudioInCount s1)
                 (toCarla RACK_GRAPH_GROUP_AUDIO_IN RACK_GRAPH_CARLA_PORT_AUDIO_IN1)
                 (connectedIn1 s1) s1"
  define s3 where "s3 = addConnections (\<lambda>portId. portId < fAudioInCount s1)
                 (toCarla RACK_GRAPH_GROUP_AUDIO_IN RACK_GRAPH_CARLA_PORT_AUDIO_IN2)
                 (connectedIn2 s1) s2"
  define s4 where "s4 = addConnections (\<lambda>portId. portId < fAudioOutCount s1)
                 (fromCarla RACK_GRAPH_CARLA_PORT_AUDIO_OUT1 RACK_GRAPH_GROUP_AUDIO_OUT)
                 (connectedOut1 s1) s3"
  define s5 where "s5 = addConnections (\<lambda>portId. portId < fAudioOutCount s1)
                 (fromCarla RACK_GRAPH_CARLA_PORT_AUDIO_OUT2 RACK_GRAPH_GROUP_AUDIO_OUT)
                 (connectedOut2 s1) s4"
  define s6 where "s6 = addConnections (\<lambda>portId. unat portId < length (midi_ins s1))
                 (toCarla RACK_GRAPH_GROUP_MIDI_IN RACK_GRAPH_CARLA_PORT_MIDI_IN)
                 (midiInPortIds W s1) s5"
  define s7 where "s7 = addConnections (\<lambda>portId. unat portId < length (midi_outs s1))
                 (fromCarla RACK_GRAPH_CARLA_PORT_MIDI_OUT RACK_GRAPH_GROUP_MIDI_OUT)
                 (midiOutPortIds W s1) s6"
  have s': "s' = s7"
    unfolding s'_def patchbayRefreshRack_def Let_def s7_def s6_def s5_def s4_def s3_def s2_def s1_def ..
  have f1: "connections_list s1 = []" "connections_lastId s1 = b"
      "connectedIn1 s1 = connectedIn1 s" "connectedIn2 s1 = connectedIn2 s"
      "connectedOut1 s1 = connectedOut1 s" "connectedOut2 s1 = connectedOut2 s"
      "length (midiInPortIds W s1) = length (fMidiIns s)"
      "length (midiOutPortIds W s1) = length (fMidiOuts s)"
      "connectionsAnnounced (trace s1) = connectionsAnnounced (trace s)"
    by (simp_all add: s1_def announcePorts_fields b_def midiInPortIds_def midiOutPortIds_def)
  have i1: "map conn_id (connections_list s1)
              = map (\<lambda>k. b + word_of_nat (Suc k)) [0..<length (connections_list s1)]"
      "connections_lastId s1 = b + word_of_nat (length (connections_list s1))"
    by (simp_all add: f1)
  obtain c1 where c1: "connections_list s2 = connections_list s1 @ c1"
      "length c1 \<le> length (connectedIn1 s1)"
      "\<forall>c\<in>set c1. \<exists>i p. c = toCarla RACK_GRAPH_GROUP_AUDIO_IN RACK_GRAPH_CARLA_PORT_AUDIO_IN1 i p"
      "connectionsAnnounced (trace s2) = connectionsAnnounced (trace s1) @ c1"
      "map conn_id (connections_list s2)
         = map (\<lambda>k. b + word_of_nat (Suc k)) [0..<length (connections_list s2)]"
      "connections_lastId s2 = b + word_of_nat (length (connections_list s2))"
    using addConnections_run [where mk = "toCarla RACK_GRAPH_GROUP_AUDIO_IN RACK_GRAPH_CARLA_PORT_AUDIO_IN1"
            and ok = "\<lambda>portId. portId < fAudioInCount s1" and ps = "connectedIn1 s1",
          OF conn_id_mk(1) i1]
    unfolding s2_def by blast
  obtain c2 where c2: "connections_list s3 = connections_list s2 @ c2"
      "length c2 \<le> length (connectedIn2 s1)"
      "\<forall>c\<in>set c2. \<exists>i p. c = toCarla RACK_GRAPH_GROUP_AUDIO_IN RACK_GRAPH_CARLA_PORT_AUDIO_IN2 i p"
      "connectionsAnnounced (trace s3) = connectionsAnnounced (trace s2) @ c2"
      "map conn_id (connections_list s3)
         = map (\<lambda>k. b + word_of_nat (Suc k)) [0..<length (connections_list s3)]"
      "connections_lastId s3 = b + word_of_nat (length (connections_list s3))"
    using addConnections_run [where mk = "toCarla RACK_GRAPH_GROUP_AUDIO_IN RACK_GRAPH_CARLA_PORT_AUDIO_IN2"
            and ok = "\<lambda>portId. portId < fAudioInCount s1" and ps = "connectedIn2 s1",
          OF conn_id_mk(1) c1(5,6)]
    unfolding s3_def by blast
  obtain c3 where c3: "connections_list s4 = connections_list s3 @ c3"
      "length c3 \<le> length (connectedOut1 s1)"
      "\<forall>c\<in>set c3. \<exists>i p. c = fromCarla RACK_GRAPH_CARLA_PORT_AUDIO_OUT1 RACK_GRAPH_GROUP_AUDIO_OUT i p"
      "connectionsAnnounced (trace s4) = connectionsAnnounced (trace s3) @ c3"
      "map conn_id (connections_list s4)
         = map (\<lambda>k. b + word_of_nat (Suc k)) [0..<length (connections_list s4)]"
      "connections_lastId s4 = b + word_of_nat (length (connections_list s4))"
    using addConnections_run [where mk = "fromCarla RACK_GRAPH_CARLA_PORT_AUDIO_OUT1 RACK_GRAPH_GROUP_AUDIO_OUT"
            and ok = "\<lambda>portId. portId < fAudioOutCount s1" and ps = "connectedOut1 s1",
          OF conn_id_mk(2) c2(5,6)]
    unfolding s4_def by blast
  obtain c4 where c4: "connections_list s5 = connections_list s4 @ c4"
      "length c4 \<le> length (connectedOut2 s1)"
      "\<forall>c\<in>set c4. \<exists>i p. c = fromCarla RACK_GRAPH_CARLA_PORT_AUDIO_OUT2 RACK_GRAPH_GROUP_AUDIO_OUT i p"
      "connectionsAnnounced (trace s5) = connectionsAnnounced (trace s4) @ c4"
      "map conn_id (connections_list s5)
         = map (\<lambda>k. b + word_of_nat (Suc k)) [0..<length (connections_list s5)]"
      "connections_lastId s5 = b + word_of_nat (length (connections_list s5))"
    using addConnections_run [where mk = "fromCarla RACK_GRAPH_CARLA_PORT_AUDIO_OUT2 RACK_GRAPH_GROUP_AUDIO_OUT"
            and ok = "\<lambda>portId. portId < fAudioOutCount s1" and ps = "connectedOut2 s1",
          OF conn_id_mk(2) c3(5,6)]
    unfolding s5_def by blast
  obtain c5 where c5: "connections_list s6 = connections_list s5 @ c5"
      "length c5 \<le> length (midiInPortIds W s1)"
      "\<forall>c\<in>set c5. \<exists>i p. c = toCarla RACK_GRAPH_GROUP_MIDI_IN RACK_GRAPH_CARLA_PORT_MIDI_IN i p"
      "connectionsAnnounced (trace s6) = connectionsAnnounced (trace s5) @ c5"
      "map conn_id (connections_list s6)
         = map (\<lambda>k. b + word_of_nat (Suc k)) [0..<length (connections_list s6)]"
      "connections_lastId s6 = b + word_of_nat (length (connections_list s6))"
    using addConnections_run [where mk = "toCarla RACK_GRAPH_GROUP_MIDI_IN RACK_GRAPH_CARLA_PORT_MIDI_IN"
            and ok = "\<lambda>portId. unat portId < length (midi_ins s1)" and ps = "midiInPortIds W s1",
          OF conn_id_mk(1) c4(5,6)]
    unfolding s6_def by blast
  obtain c6 where c6: "connections_list s7 = connections_list s6 @ c6"
      "length c6 \<le> length (midiOutPortIds W s1)"
      "\<forall>c\<in>set c6. \<exists>i p. c = fromCarla RACK_GRAPH_CARLA_PORT_MIDI_OUT RACK_GRAPH_GROUP_MIDI_OUT i p"
      "connectionsAnnounced (trace s7) = connectionsAnnounced (trace s6) @ c6"
      "map conn_id (connections_list s7)
         = map (\<lambda>k. b + word_of_nat (Suc k)) [0..<length (connections_list s7)]"
      "connections_lastId s7 = b + word_of_nat (length (connections_list s7))"
    using addConnections_run [where mk = "fromCarla RACK_GRAPH_CARLA_PORT_MIDI_OUT RACK_GRAPH_GROUP_MIDI_OUT"
            and ok = "\<lambda>portId. unat portId < length (midi_outs s1)" and ps = "midiOutPortIds W s1",
          OF conn_id_mk(2) c5(5,6)]
    unfolding s7_def by blast
  have l: "connections_list s7 = (c1 @ c2) @ (c3 @ c4) @ c5 @ c6"
    unfolding c6(1) c5(1) c4(1) c3(1) c2(1) c1(1) f1(1) by simp
  have g1: "\<forall>c\<in>set (c1 @ c2). groupA c = RACK_GRAPH_GROUP_AUDIO_IN \<and> groupB c = RACK_GRAPH_GROUP_CARLA"
    using c1(3) c2(3) by (auto simp: toCarla_def)
  have g2: "\<forall>c\<in>set (c3 @ c4). groupA c = RACK_GRAPH_GROUP_CARLA \<and> groupB c = RACK_GRAPH_GROUP_AUDIO_OUT"
    using c3(3) c4(3) by (auto simp: fromCarla_def)
  have g3: "\<forall>c\<in>set c5. groupA c = RACK_GRAPH_GROUP_MIDI_IN \<and> groupB c = RACK_GRAPH_GROUP_CARLA"
    using c5(3) by (auto simp: toCarla_def)
  have g4: "\<forall>c\<in>set c6. groupA c = RACK_GRAPH_GROUP_CARLA \<and> groupB c = RACK_GRAPH_GROUP_MIDI_OUT"
    using c6(3) by (auto simp: fromCarla_def)
  have len: "length (connections_list s7)
          \<le> length (connectedIn1 s) + length (connectedIn2 s) + length (connectedOut1 s)
             + length (connectedOut2 s) + length (fMidiIns s) + length (fMidiOuts s)"
    unfolding l using c1(2) c2(2) c3(2) c4(2) c5(2) c6(2) unfolding f1 by simp
  have an: "connectionsAnnounced (trace s7) = connectionsAnnounced (trace s) @ connections_list s7"
    unfolding l c6(4) c5(4) c4(4) c3(4) c2(4) c1(4) f1(9) by simp
  show ?thesis
    unfolding s' using l g1 g2 g3 g4 len an c6(5,6) by blast
qed

lemma ids_strictly_increasing:
  assumes "unat (b :: u32) + n < 2 ^ 32"
  shows "sorted_wrt (<) (map (\<lambda>k. b + word_of_nat (Suc k)) [0..<n])"
proof (rule sorted_wrt_map_mono [OF sorted_wrt_upt])
  fix x y :: nat
  assume x: "x \<in> set [0..<n]" and y: "y \<in> set [0..<n]" and xy: "x < y"
  have u: "unat (b + word_of_nat (Suc k)) = unat b + Suc k" if "k < n" for k
  proof -
    have k: "Suc k < 2 ^ 32" using that assms by linarith
    have "unat (word_of_nat (Suc k) :: u32) = Suc k"
      using k by (simp add: unat_of_nat del: of_nat_Suc)
    moreover have "unat b + Suc k < 2 ^ 32" using that assms by linarith
    ultimately show ?thesis
      using unat_add_lem [of b "word_of_nat (Suc k)"] by (simp del: of_nat_Suc)
  qed
  have "unat (b + word_of_nat (Suc x)) < unat (b + word_of_nat (Suc y))"
    using x y xy by (simp add: u del: of_nat_Suc)
  then show "b + word_of_nat (Suc x) < b + word_of_nat (Suc y)"
    by (simp add: word_less_nat_alt del: of_nat_Suc)
qed

text \<open>
  Claim C7. In one pass of \<open>patchbayRefreshRack\<close> every connection gets its identifier
  from the one counter \<open>lastId\<close>: the identifiers are \<open>b+1, b+2, ...\<close> in the order of
  the connection list, where \<open>b\<close> is what clearing the connections leaves in the
  counter, and the callbacks announce the connections in that same order. The list holds
  the audio-in connections, then the audio-out, then the MIDI-in, then the MIDI-out
  ones. As long as the 32-bit counter does not wrap, the identifiers are strictly
  increasing in that order and no two are equal.
\<close>
theorem connection_ids_strictly_increasing:
  assumes "unat (connections_clear W (connections_lastId s))
             + (length (connectedIn1 s) + length (connectedIn2 s) + length (connectedOut1 s)
                + length (connectedOut2 s) + length (fMidiIns s) + length (fMidiOuts s)) < 2 ^ 32"
  shows "sorted_wrt (<) (map conn_id (connections_list (patchbayRefreshRack K W s)))
     \<and> distinct (map conn_id (connections_list (patchbayRefreshRack K W s)))
     \<and> map conn_id (connections_list (patchbayRefreshRack K W s))
         = map (\<lambda>k. connections_clear W (connections_lastId s) + word_of_nat (Suc k))
             [0..<length (connections_list (patchbayRefreshRack K W s))]
     \<and> connections_lastId (patchbayRefreshRack K W s)
         = connections_clear W (connections_lastId s)
             + word_of_nat (length (connections_list (patchbayRefreshRack K W s)))
     \<and> connectionsAnnounced (trace (patchbayRefreshRack K W s))
         = connectionsAnnounced (trace s) @ connections_list (patchbayRefreshRack K W s)
     \<and> (\<exists>audioIn audioOut midiIn midiOut.
           connections_list (patchbayRefreshRack K W s) = audioIn @ audioOut @ midiIn @ midiOut
           \<and> (\<forall>c\<in>set audioIn. groupA c = RACK_GRAPH_GROUP_AUDIO_IN
                                  \<and> groupB c = RACK_GRAPH_GROUP_CARLA)
           \<and> (\<forall>c\<in>set audioOut. groupA c = RACK_GRAPH_GROUP_CARLA
                                  \<and> groupB c = RACK_GRAPH_GROUP_AUDIO_OUT)
           \<and> (\<forall>c\<in>set midiIn. groupA c = RACK_GRAPH_GROUP_MIDI_IN
                                  \<and> groupB c = RACK_GRAPH_GROUP_CARLA)
           \<and> (\<forall>c\<in>set midiOut. groupA c = RACK_GRAPH_GROUP_CARLA
                                  \<and> groupB c = RACK_GRAPH_GROUP_MIDI_OUT))"
proof -
  let ?b = "connections_clear W (connections_lastId s)"
  let ?cs = "connections_list (patchbayRefreshRack K W s)"
  obtain audioIn audioOut midiIn midiOut where r:
      "?cs = audioIn @ audioOut @ midiIn @ midiOut"
      "\<forall>c\<in>set audioIn. groupA c = RACK_GRAPH_GROUP_AUDIO_IN \<and> groupB c = RACK_GRAPH_GROUP_CARLA"
      "\<forall>c\<in>set audioOut. groupA c = RACK_GRAPH_GROUP_CARLA \<and> groupB c = RACK_GRAPH_GROUP_AUDIO_OUT"
      "\<forall>c\<in>set midiIn. groupA c = RACK_GRAPH_GROUP_MIDI_IN \<and> groupB c = RACK_GRAPH_GROUP_CARLA"
      "\<forall>c\<in>set midiOut. groupA c = RACK_GRAPH_GROUP_CARLA \<and> groupB c = RACK_GRAPH_GROUP_MIDI_OUT"
      "length ?cs \<le> length (connectedIn1 s) + length (connectedIn2 s) + length (connectedOut1 s)
             + length (connectedOut2 s) + length (fMidiIns s) + length (fMidiOuts s)"
      "connectionsAnnounced (trace (patchbayRefreshRack K W s)) = connectionsAnnounced (trace s) @ ?cs"
      "map conn_id ?cs = map (\<lambda>k. ?b + word_of_nat (Suc k)) [0..<length ?cs]"
      "connections_lastId (patchbayRefreshRack K W s) = ?b + word_of_nat (length ?cs)"
    using patchbayRefreshRack_connections [of K W s] by blast
  have "unat ?b + length ?cs < 2 ^ 32" using assms r(6) by linarith
  then have "sorted_wrt (<) (map (\<lambda>k. ?b + word_of_nat (Suc k)) [0..<length ?cs])"
    by (rule ids_strictly_increasing)
  then have srt: "sorted_wrt (<) (map conn_id ?cs)" unfolding r(8) [symmetric] .
  then have dst: "distinct (map conn_id ?cs)" by (simp add: strict_sorted_iff)
  have seg: "\<exists>audioIn audioOut midiIn midiOut.
           ?cs = audioIn @ audioOut @ midiIn @ midiOut
           \<and> (\<forall>c\<in>set audioIn. groupA c = RACK_GRAPH_GROUP_AUDIO_IN
                                  \<and> groupB c = RACK_GRAPH_GROUP_CARLA)
           \<and> (\<forall>c\<in>set audioOut. groupA c = RACK_GRAPH_GROUP_CARLA
                                  \<and> groupB c = RACK_GRAPH_GROUP_AUDIO_OUT)
           \<and> (\<forall>c\<in>set midiIn. groupA c = RACK_GRAPH_GROUP_MIDI_IN
                                  \<and> groupB c = RACK_GRAPH_GROUP_CARLA)
           \<and> (\<forall>c\<in>set midiOut. groupA c = RACK_GRAPH_GROUP_CARLA
                                  \<and> groupB c = RACK_GRAPH_GROUP_MIDI_OUT)"
    using r(1-5) by blast
  show ?thesis using srt dst r(8,9,7) seg by (intro conjI)
qed

theorem connection_ids_strictly_increasing_witness:
  "unat (connections_clear pluggedWorld (connections_lastId connectedEngine))
     + (length (connectedIn1 connectedEngine) + length (connectedIn2 connectedEngine)
        + length (connectedOut1 connectedEngine) + length (connectedOut2 connectedEngine)
        + length (fMidiIns connectedEngine) + length (fMidiOuts connectedEngine)) < 2 ^ 32
   \<and> map conn_id (connections_list (patchbayRefreshRack exampleConsts pluggedWorld connectedEngine))
       = [1, 2, 3, 4, 5]
   \<and> sorted_wrt (<)
        (map conn_id (connections_list (patchbayRefreshRack exampleConsts pluggedWorld connectedEngine)))
   \<and> distinct
        (map conn_id (connections_list (patchbayRefreshRack exampleConsts pluggedWorld connectedEngine)))"
proof -
  have h: "unat (connections_clear pluggedWorld (connections_lastId connectedEngine))
     + (length (connectedIn1 connectedEngine) + length (connectedIn2 connectedEngine)
        + length (connectedOut1 connectedEngine) + length (connectedOut2 connectedEngine)
        + length (fMidiIns connectedEngine) + length (fMidiOuts connectedEngine)) < 2 ^ 32"
    by (simp add: pluggedWorld_def quietWorld_def connectedEngine_def portsEngine_def
          rackEngine_def readyEngine_def newEngine_def)
  have v: "map conn_id (connections_list (patchbayRefreshRack exampleConsts pluggedWorld connectedEngine))
             = [1, 2, 3, 4, 5]"
    by (simp add: patchbayRefreshRack_def announcePorts_def pluggedWorld_def quietWorld_def
          connectedEngine_def portsEngine_def rackEngine_def readyEngine_def newEngine_def
          emit_def Let_def midiInPortIds_def midiOutPortIds_def toCarla_def fromCarla_def
          midiPortEntries_def exampleConsts_def hwPorts_def)
  from connection_ids_strictly_increasing [OF h, of exampleConsts]
  have "sorted_wrt (<)
          (map conn_id (connections_list (patchbayRefreshRack exampleConsts pluggedWorld connectedEngine)))"
    and "distinct
          (map conn_id (connections_list (patchbayRefreshRack exampleConsts pluggedWorld connectedEngine)))"
    by blast+
  with h v show ?thesis by (intro conjI)
qed

subsection \<open>Opening\<close>

lemma addConnections_negotiated:
  "bufferSize (addConnections ok mk ps s) = bufferSize s
   \<and> sampleRate (addConnections ok mk ps s) = sampleRate s"
  by (induction ps arbitrary: s) (simp_all add: emit_def Let_def)

lemma patchbayRefreshRack_negotiated:
  "bufferSize (patchbayRefreshRack K W s) = bufferSize s"
  "sampleRate (patchbayRefreshRack K W s) = sampleRate s"
  by (simp_all add: patchbayRefreshRack_def Let_def addConnections_negotiated
        announcePorts_def emit_def)

lemma patchbayRefresh_negotiated:
  "bufferSize (snd (patchbayRefresh K W s)) = bufferSize s"
  "sampleRate (snd (patchbayRefresh K W s)) = sampleRate s"
  by (simp_all add: patchbayRefresh_def Let_def patchbayRefreshRack_negotiated emit_def)

text \<open>
  Claim C4. When \<open>init\<close> returns success, the buffer size in the shared state is the
  value that \<open>openStream\<close> wrote back and the sample rate is the one the stream reports,
  not the values asked for in the options.
\<close>
theorem init_commits_negotiated_values:
  "fst (init K W clientName s) \<longrightarrow>
     (\<exists>bufferFrames. openStream W (opt_audioSampleRate s) (opt_audioBufferSize s) = Inr bufferFrames
        \<and> bufferSize (snd (init K W clientName s)) = bufferFrames
        \<and> sampleRate (snd (init K W clientName s)) = getStreamSampleRate W)"
  by (auto simp: init_def Let_def patchbayRefresh_negotiated emit_def setLastError_def
        split: option.splits sum.splits if_splits)

theorem init_commits_negotiated_values_witness:
  "fst (init exampleConsts negotiatingWorld (Some ''Carla'') newEngine)
   \<and> opt_audioBufferSize newEngine = 512 \<and> opt_audioSampleRate newEngine = 44100
   \<and> bufferSize (snd (init exampleConsts negotiatingWorld (Some ''Carla'') newEngine)) = 256
   \<and> sampleRate (snd (init exampleConsts negotiatingWorld (Some ''Carla'') newEngine)) = 48000"
proof -
  have ok: "fst (init exampleConsts negotiatingWorld (Some ''Carla'') newEngine)"
    by (simp add: init_def selectDevice_def negotiatingWorld_def quietWorld_def newEngine_def
          Let_def patchbayRefresh_def emit_def)
  have req: "opt_audioBufferSize newEngine = 512" "opt_audioSampleRate newEngine = 44100"
    by (simp_all add: newEngine_def)
  have w: "openStream negotiatingWorld (opt_audioSampleRate newEngine) (opt_audioBufferSize newEngine)
             = Inr 256" "getStreamSampleRate negotiatingWorld = 48000"
    by (simp_all add: negotiatingWorld_def quietWorld_def)
  from init_commits_negotiated_values [of exampleConsts negotiatingWorld "Some ''Carla''" newEngine] ok
  have "bufferSize (snd (init exampleConsts negotiatingWorld (Some ''Carla'') newEngine)) = 256"
    and "sampleRate (snd (init exampleConsts negotiatingWorld (Some ''Carla'') newEngine)) = 48000"
    unfolding w by auto
  with ok req show ?thesis by (intro conjI)
qed

subsection \<open>The MIDI port registry\<close>

lemma findPortIndex_Some: "findPortIndex names pn \<noteq> None \<longleftrightarrow> pn \<in> set names"
  by (simp add: findPortIndex_def)

lemma connectRackMidiInPort_success:
  assumes "fst (connectRackMidiInPort K W (Some pn) s) = Inr True"
  shows "pn \<noteq> []" "midi_ins s \<noteq> []" "pn \<in> set (midiInPortNames W)" "openPort W = None"
    "fMidiIns (snd (connectRackMidiInPort K W (Some pn) s))
       = fMidiIns s @ [\<lparr>rtmidi = newRtMidi W, name = take (STR_MAX K) pn\<rparr>]"
    "midi_ins (snd (connectRackMidiInPort K W (Some pn) s)) = midi_ins s"
  using assms
  by (auto simp: connectRackMidiInPort_def Let_def emit_def findPortIndex_def
        split: if_splits option.splits)

lemma connectRackMidiInPort_failure:
  assumes "fst (connectRackMidiInPort K W portName s) \<noteq> Inr True"
  shows "fst (connectRackMidiInPort K W portName s) = Inr False"
    "fMidiIns (snd (connectRackMidiInPort K W portName s)) = fMidiIns s"
    "fMidiOuts (snd (connectRackMidiInPort K W portName s)) = fMidiOuts s"
    "trace (snd (connectRackMidiInPort K W portName s)) = trace s @ [SafeAssertFailed]
     \<or> (\<exists>tr. trace (snd (connectRackMidiInPort K W portName s))
               = trace s @ NewRtMidiIn (newRtMidi W) # tr @ [DeleteRtMidi (newRtMidi W)])"
  using assms
  by (auto simp: connectRackMidiInPort_def Let_def emit_def
        split: if_splits option.splits)

lemma connectRackMidiOutPort_not_found:
  assumes "pn \<notin> set (midiOutPortNames W)"
  shows "fst (connectRackMidiOutPort K W (Some pn) s) = Inr False"
    "fMidiOuts (snd (connectRackMidiOutPort K W (Some pn) s)) = fMidiOuts s"
    "fMidiIns (snd (connectRackMidiOutPort K W (Some pn) s)) = fMidiIns s"
  using assms
  by (auto simp: connectRackMidiOutPort_def Let_def emit_def findPortIndex_def
        split: if_splits option.splits)

lemma connectRackMidiOutPort_open_throws:
  assumes "pn \<noteq> []" "midi_ins s \<noteq> []" "pn \<in> set (midiOutPortNames W)" "openPort W = Some e"
  shows "fst (connectRackMidiOutPort K W (Some pn) s) = Inl (RtError e)"
    "DeleteRtMidi (newRtMidi W) \<notin> set (drop (length (trace s))
        (trace (snd (connectRackMidiOutPort K W (Some pn) s))))"
    "fMidiOuts (snd (connectRackMidiOutPort K W (Some pn) s)) = fMidiOuts s"
  using assms
  by (auto simp: connectRackMidiOutPort_def Let_def emit_def findPortIndex_def
        split: if_splits option.splits)

lemma removeNamed_appended:
  assumes "name p = X"
  shows "\<exists>q rest. removeNamed X (ps @ [p]) = Some (q, rest) \<and> name q = X
      \<and> mset (map name rest) = mset (map name ps)
      \<and> (X \<notin> set (map name ps) \<longrightarrow> q = p \<and> rest = ps)"
proof (induction ps)
  case Nil
  show ?case using assms by simp
next
  case (Cons a ps)
  then obtain q rest where r: "removeNamed X (ps @ [p]) = Some (q, rest)" "name q = X"
      "mset (map name rest) = mset (map name ps)"
      "X \<notin> set (map name ps) \<longrightarrow> q = p \<and> rest = ps"
    by blast
  show ?case
  proof (cases "name a = X")
    case True
    then show ?thesis using assms by simp
  next
    case False
    then show ?thesis using r by simp
  qed
qed

text \<open>
  Claim C9. \<open>connectRackMidiInPort\<close> deletes the native object and returns failure when
  the port is not visible or opening it throws, and leaves the registry as it was
  (\<open>connectRackMidiInPort_failure\<close>); \<open>connectRackMidiOutPort\<close> does so when the port is
  not visible (\<open>connectRackMidiOutPort_not_found\<close>). When opening throws in
  \<open>connectRackMidiOutPort\<close>, the exception leaves the function: nothing is returned and
  the native object is not deleted (\<open>connectRackMidiOutPort_open_throws\<close>). With the
  visible output port Z and input port X and an \<open>openPort\<close> that throws:
\<close>
theorem connect_out_open_failure_escapes:
  "connectRackMidiOutPort exampleConsts failingWorld (Some ''Z'') rackEngine
     = (Inl (RtError ''open failed''), rackEngine\<lparr>trace := [NewRtMidiOut 1, OpenPort 1 0]\<rparr>)
   \<and> connectRackMidiInPort exampleConsts failingWorld (Some ''X'') rackEngine
     = (Inr False,
        rackEngine\<lparr>trace := [NewRtMidiIn 1, SetCallback 1, OpenPort 1 0, DeleteRtMidi 1]\<rparr>)"
  by (simp add: connectRackMidiOutPort_def connectRackMidiInPort_def failingWorld_def
        pluggedWorld_def quietWorld_def rackEngine_def readyEngine_def newEngine_def
        findPortIndex_def emit_def Let_def)

text \<open>
  Claim C8, as stated: for any port name X a successful connect followed by a disconnect
  of X leaves the names in \<open>fMidiIns\<close> as they were. It fails for a name longer than
  \<open>STR_MAX\<close>: the registry keeps the first \<open>STR_MAX\<close> characters, the disconnect compares
  the whole name, finds nothing and returns failure, and the truncated name stays.
\<close>
theorem long_port_name_roundtrip_counterexample:
  "fst (connectRackMidiInPort exampleConsts longNameWorld (Some longPortName) rackEngine) = Inr True
   \<and> \<not> fst (disconnectRackMidiInPort (Some longPortName)
              (snd (connectRackMidiInPort exampleConsts longNameWorld (Some longPortName) rackEngine)))
   \<and> map name (fMidiIns (snd (disconnectRackMidiInPort (Some longPortName)
              (snd (connectRackMidiInPort exampleConsts longNameWorld (Some longPortName) rackEngine)))))
       = [replicate 255 (CHR ''a'')]
   \<and> map name (fMidiIns rackEngine) = []"
  by (simp add: connectRackMidiInPort_def disconnectRackMidiInPort_def longNameWorld_def
        longPortName_def quietWorld_def rackEngine_def readyEngine_def newEngine_def
        exampleConsts_def findPortIndex_def emit_def Let_def)

text \<open>
  Claim C8, amended. For any port name X of at most \<open>STR_MAX\<close> characters, a successful
  \<open>connectRackMidiInPort\<close> of X followed by \<open>disconnectRackMidiInPort\<close> of X succeeds
  and leaves the names in \<open>fMidiIns\<close> as they were before the connect, as a set and
  with their multiplicities; when X was not in the registry before, the whole list is
  as it was.
\<close>
theorem connect_disconnect_roundtrip:
  assumes "fst (connectRackMidiInPort K W (Some X) s) = Inr True" and "length X \<le> STR_MAX K"
  shows "fst (disconnectRackMidiInPort (Some X) (snd (connectRackMidiInPort K W (Some X) s)))
     \<and> set (map name (fMidiIns (snd (disconnectRackMidiInPort (Some X)
                                       (snd (connectRackMidiInPort K W (Some X) s))))))
         = set (map name (fMidiIns s))
     \<and> mset (map name (fMidiIns (snd (disconnectRackMidiInPort (Some X)
                                       (snd (connectRackMidiInPort K W (Some X) s))))))
         = mset (map name (fMidiIns s))
     \<and> (X \<notin> set (map name (fMidiIns s)) \<longrightarrow>
           fMidiIns (snd (disconnectRackMidiInPort (Some X)
                            (snd (connectRackMidiInPort K W (Some X) s))))
             = fMidiIns s)"
proof -
  let ?s1 = "snd (connectRackMidiInPort K W (Some X) s)"
  let ?p = "\<lparr>rtmidi = newRtMidi W, name = take (STR_MAX K) X\<rparr>"
  note c = connectRackMidiInPort_success [OF assms(1)]
  have np: "name ?p = X" using assms(2) by simp
  obtain q rest where r: "removeNamed X (fMidiIns s @ [?p]) = Some (q, rest)"
      "mset (map name rest) = mset (map name (fMidiIns s))"
      "X \<notin> set (map name (fMidiIns s)) \<longrightarrow> q = ?p \<and> rest = fMidiIns s"
    using removeNamed_appended [OF np, of "fMidiIns s"] by blast
  have d: "fst (disconnectRackMidiInPort (Some X) ?s1)"
      "fMidiIns (snd (disconnectRackMidiInPort (Some X) ?s1)) = rest"
    using c(1,2) r(1) by (simp_all add: disconnectRackMidiInPort_def c(5,6) emit_def)
  have st: "set (map name rest) = set (map name (fMidiIns s))"
    using r(2) by (rule mset_eq_setD)
  show ?thesis unfolding d(2) using d(1) st r(2,3) by blast
qed

theorem connect_disconnect_roundtrip_witness:
  "fst (connectRackMidiInPort exampleConsts pluggedWorld (Some ''X'') portsEngine) = Inr True
   \<and> length ''X'' \<le> STR_MAX exampleConsts
   \<and> fst (disconnectRackMidiInPort (Some ''X'')
            (snd (connectRackMidiInPort exampleConsts pluggedWorld (Some ''X'') portsEngine)))
   \<and> set (map name (fMidiIns (snd (disconnectRackMidiInPort (Some ''X'')
            (snd (connectRackMidiInPort exampleConsts pluggedWorld (Some ''X'') portsEngine))))))
       = {''X'', ''Y''}"
proof -
  have h: "fst (connectRackMidiInPort exampleConsts pluggedWorld (Some ''X'') portsEngine) = Inr True"
      "length ''X'' \<le> STR_MAX exampleConsts"
    by (simp_all add: connectRackMidiInPort_def pluggedWorld_def quietWorld_def portsEngine_def
          rackEngine_def readyEngine_def newEngine_def exampleConsts_def findPortIndex_def
          emit_def Let_def)
  have n: "set (map name (fMidiIns portsEngine)) = {''X'', ''Y''}"
    by (simp add: portsEngine_def rackEngine_def readyEngine_def newEngine_def)
  from connect_disconnect_roundtrip [OF h]
  have "fst (disconnectRackMidiInPort (Some ''X'')
            (snd (connectRackMidiInPort exampleConsts pluggedWorld (Some ''X'') portsEngine)))"
    and "set (map name (fMidiIns (snd (disconnectRackMidiInPort (Some ''X'')
            (snd (connectRackMidiInPort exampleConsts pluggedWorld (Some ''X'') portsEngine))))))
       = {''X'', ''Y''}"
    unfolding n by blast+
  with h show ?thesis by (intro conjI)
qed

end
